theory Spec2Isabelle
  imports Main
begin

section \<open>Decoded frames\<close>

text \<open>
  \<^verbatim>\<open>ChatConsumer.receive\<close> starts with \<^verbatim>\<open>json.loads(text_data)\<close>. The decoder is a
  library function, so a frame enters the model already decoded: \<open>None\<close> stands for a
  text on which the decoder raises \<^verbatim>\<open>JSONDecodeError\<close>, \<open>Some v\<close> for the Python value
  it returns. A decoded object is the resulting dict, written as an association list
  whose first binding of a key is the one the dict holds. Numbers with a fraction or
  an exponent are not part of the model. Strings are lists of characters, one
  character per code point below 256.
\<close>

datatype json =
    JNull
  | JBool bool
  | JInt int
  | JStr string
  | JArr "json list"
  | JObj "(string \<times> json) list"

text \<open>Exceptions that leave a handler uncaught are values of the model.\<close>

datatype exn =
    AttributeError | TypeError | ValueError | IntegrityError | MultipleObjectsReturned

text \<open>Python's truth value, as used by \<^verbatim>\<open>if is_typing:\<close> and \<^verbatim>\<open>if message_id:\<close>.\<close>

fun truthy :: "json \<Rightarrow> bool" where
  "truthy JNull = False"
| "truthy (JBool b) = b"
| "truthy (JInt n) = (n \<noteq> 0)"
| "truthy (JStr s) = (s \<noteq> [])"
| "truthy (JArr xs) = (xs \<noteq> [])"
| "truthy (JObj kvs) = (kvs \<noteq> [])"

text \<open>\<^verbatim>\<open>data.get(key)\<close>: only a dict has the method.\<close>

fun dict_get :: "json \<Rightarrow> string \<Rightarrow> exn + json option" where
  "dict_get (JObj kvs) k = Inr (map_of kvs k)"
| "dict_get _ k = Inl AttributeError"

text \<open>\<^verbatim>\<open>str.strip()\<close> removes the white space of both ends.\<close>

definition is_space :: "char \<Rightarrow> bool" where
  "is_space c = ((of_char c :: nat) \<in> {9, 10, 11, 12, 13, 28, 29, 30, 31, 32, 133, 160})"

definition strip :: "string \<Rightarrow> string" where
  "strip s = rev (dropWhile is_space (rev (dropWhile is_space s)))"

text \<open>
  The ORM turns the value of a primary-key lookup into a number with \<^verbatim>\<open>int(value)\<close>:
  a decimal literal with an optional sign, single underscores between digits and
  white space around it is accepted (the interpreter's limit on the length of such
  a literal is not modelled). The white space that \<^verbatim>\<open>int\<close> skips is narrower than
  that of \<^verbatim>\<open>strip\<close>: the separators 28 to 31 are not part of it.
\<close>

definition is_int_space :: "char \<Rightarrow> bool" where
  "is_int_space c = ((of_char c :: nat) \<in> {9, 10, 11, 12, 13, 32, 133, 160})"

definition is_digit :: "char \<Rightarrow> bool" where
  "is_digit c = (48 \<le> (of_char c :: nat) \<and> (of_char c :: nat) \<le> 57)"

definition digit_of :: "char \<Rightarrow> nat" where
  "digit_of c = of_char c - 48"

fun py_digits :: "string \<Rightarrow> bool \<Rightarrow> nat \<Rightarrow> nat option" where
  "py_digits [] prev acc = (if prev then Some acc else None)"
| "py_digits (c # cs) prev acc =
     (if is_digit c then py_digits cs True (10 * acc + digit_of c)
      else if c = CHR ''_'' \<and> prev then py_digits cs False acc
      else None)"

definition py_int :: "string \<Rightarrow> int option" where
  "py_int s =
     (case rev (dropWhile is_int_space (rev (dropWhile is_int_space s))) of
        [] \<Rightarrow> None
      | c # cs \<Rightarrow>
          if c = CHR ''-'' then map_option (\<lambda>n. - int n) (py_digits cs False 0)
          else if c = CHR ''+'' then map_option int (py_digits cs False 0)
          else map_option int (py_digits (c # cs) False 0))"

fun pk_value :: "json \<Rightarrow> exn + int" where
  "pk_value (JInt n) = Inr n"
| "pk_value (JBool b) = Inr (if b then 1 else 0)"
| "pk_value (JStr s) = (case py_int s of Some n \<Rightarrow> Inr n | None \<Rightarrow> Inl ValueError)"
| "pk_value JNull = Inl TypeError"
| "pk_value (JArr xs) = Inl TypeError"
| "pk_value (JObj kvs) = Inl TypeError"

section \<open>The tables of chat/models.py and authentication/models.py\<close>

text \<open>
  A table is the list of its rows, in insertion order. Rows keep the columns that the
  consumer and the model methods read or write. A point in time is a number of
  microseconds, the resolution of \<^verbatim>\<open>datetime\<close>; \<^verbatim>\<open>timezone.now()\<close> is an argument of
  the operation that calls it.
\<close>

record user_row =
  u_id :: int
  u_username :: string
  u_is_online :: bool

record conversation =
  cv_id :: int
  cv_updated_at :: int

record participant =
  p_conversation :: int
  p_user :: int
  p_last_read_at :: "int option"

record message =
  m_id :: int
  m_conversation :: int
  m_sender :: int
  m_type :: string
  m_content :: string
  m_created_at :: int

record read_status =
  rs_message :: int
  rs_user :: int
  rs_read_at :: int

record typing_indicator =
  ti_conversation :: int
  ti_user :: int
  ti_started_at :: int

record database =
  users :: "user_row list"
  conversations :: "conversation list"
  participants :: "participant list"
  messages :: "message list"
  read_statuses :: "read_status list"
  typing_indicators :: "typing_indicator list"
  message_seq :: int

subsection \<open>Model methods\<close>

text \<open>
  \<^verbatim>\<open>ConversationParticipant.get_unread_count\<close>: the messages of the conversation that
  the participant did not send, created after \<^verbatim>\<open>last_read_at\<close> when that is set.
\<close>

definition get_unread_count :: "database \<Rightarrow> participant \<Rightarrow> nat" where
  "get_unread_count d p =
     (case p_last_read_at p of
        Some t \<Rightarrow>
          length [m \<leftarrow> messages d. m_conversation m = p_conversation p
                    \<and> m_created_at m > t \<and> m_sender m \<noteq> p_user p]
      | None \<Rightarrow>
          length [m \<leftarrow> messages d. m_conversation m = p_conversation p
                    \<and> m_sender m \<noteq> p_user p])"

text \<open>
  \<^verbatim>\<open>TypingIndicator.is_active\<close>: \<^verbatim>\<open>(timezone.now() - self.started_at).seconds < 5\<close>.
  The difference of two points in time is a \<^verbatim>\<open>timedelta\<close>, kept normalised as days,
  seconds below 86400 and microseconds below 1000000; \<^verbatim>\<open>.seconds\<close> reads the middle
  component.
\<close>

definition timedelta_seconds :: "int \<Rightarrow> int" where
  "timedelta_seconds delta = (delta div 1000000) mod 86400"

definition is_active :: "int \<Rightarrow> typing_indicator \<Rightarrow> bool" where
  "is_active now ti = (timedelta_seconds (now - ti_started_at ti) < 5)"

section \<open>Consumers and the channel layer\<close>

datatype scope_user = AnonymousUser | User int string

datatype conn_state = Connecting | Accepted | Closed

text \<open>
  The output of \<^verbatim>\<open>MessageSerializer\<close> as the consumer calls it, without a request in
  the context: \<^verbatim>\<open>is_read\<close> is then \<^verbatim>\<open>False\<close>. Of the nested sender the identity and
  the name are kept.
\<close>

record message_data =
  md_id :: int
  md_conversation :: int
  md_sender :: int
  md_sender_username :: string
  md_type :: string
  md_content :: string
  md_created_at :: int
  md_is_read :: bool

text \<open>A group message names the handler that every consumer of the group runs.\<close>

datatype event =
    Ev_chat_message_handler message_data
  | Ev_typing_indicator_handler int string json
  | Ev_user_status int string string

text \<open>What a consumer writes to its socket with \<^verbatim>\<open>self.send\<close>.\<close>

datatype frame =
    Out_chat_message message_data
  | Out_typing int string json
  | Out_user_status int string string
  | Out_error string

record consumer =
  channel_name :: string
  conversation_id :: int
  c_user :: scope_user
  c_state :: conn_state
  sent :: "frame list"

text \<open>
  The state of the whole hub: the tables, the groups of the channel layer (the group
  \<^verbatim>\<open>chat_<id>\<close> is kept under the conversation's id) and the consumers, one per socket.
  A handler gets its own consumer as \<open>self\<close> for the attributes that \<^verbatim>\<open>connect\<close>
  sets once; what it sends is appended to the consumer of that channel name in the
  state. A group message is handled at once by every consumer of the group.
\<close>

record world =
  db :: database
  groups :: "int \<Rightarrow> string set"
  consumers :: "consumer list"

fun user_id :: "scope_user \<Rightarrow> int option" where
  "user_id AnonymousUser = None"
| "user_id (User uid uname) = Some uid"

definition outbox :: "world \<Rightarrow> string \<Rightarrow> frame list" where
  "outbox w ch =
     (case find (\<lambda>c. channel_name c = ch) (consumers w) of
        None \<Rightarrow> []
      | Some c \<Rightarrow> sent c)"

definition state_of :: "world \<Rightarrow> string \<Rightarrow> conn_state option" where
  "state_of w ch = map_option c_state (find (\<lambda>c. channel_name c = ch) (consumers w))"

subsection \<open>Socket and channel-layer primitives\<close>

definition send :: "world \<Rightarrow> string \<Rightarrow> frame \<Rightarrow> world" where
  "send w ch f =
     w\<lparr>consumers :=
         map (\<lambda>c. if channel_name c = ch then c\<lparr>sent := sent c @ [f]\<rparr> else c) (consumers w)\<rparr>"

definition set_state :: "world \<Rightarrow> string \<Rightarrow> conn_state \<Rightarrow> world" where
  "set_state w ch st =
     w\<lparr>consumers :=
         map (\<lambda>c. if channel_name c = ch then c\<lparr>c_state := st\<rparr> else c) (consumers w)\<rparr>"

definition accept :: "world \<Rightarrow> string \<Rightarrow> world" where
  "accept w ch = set_state w ch Accepted"

definition close :: "world \<Rightarrow> string \<Rightarrow> world" where
  "close w ch = set_state w ch Closed"

definition group_add :: "world \<Rightarrow> int \<Rightarrow> string \<Rightarrow> world" where
  "group_add w g ch = w\<lparr>groups := (groups w)(g := insert ch (groups w g))\<rparr>"

definition group_discard :: "world \<Rightarrow> int \<Rightarrow> string \<Rightarrow> world" where
  "group_discard w g ch = w\<lparr>groups := (groups w)(g := groups w g - {ch})\<rparr>"

subsection \<open>Handlers of group messages\<close>

definition chat_message_handler :: "consumer \<Rightarrow> message_data \<Rightarrow> frame list" where
  "chat_message_handler self md = [Out_chat_message md]"

definition typing_indicator_handler :: "consumer \<Rightarrow> int \<Rightarrow> string \<Rightarrow> json \<Rightarrow> frame list" where
  "typing_indicator_handler self uid uname is_typing =
     (if Some uid \<noteq> user_id (c_user self) then [Out_typing uid uname is_typing] else [])"

definition user_status :: "consumer \<Rightarrow> int \<Rightarrow> string \<Rightarrow> string \<Rightarrow> frame list" where
  "user_status self uid uname status = [Out_user_status uid uname status]"

fun dispatch :: "consumer \<Rightarrow> event \<Rightarrow> frame list" where
  "dispatch self (Ev_chat_message_handler md) = chat_message_handler self md"
| "dispatch self (Ev_typing_indicator_handler uid uname is_typing) =
     typing_indicator_handler self uid uname is_typing"
| "dispatch self (Ev_user_status uid uname status) = user_status self uid uname status"

definition group_send :: "world \<Rightarrow> int \<Rightarrow> event \<Rightarrow> world" where
  "group_send w g ev =
     w\<lparr>consumers :=
         map (\<lambda>c. if channel_name c \<in> groups w g then c\<lparr>sent := sent c @ dispatch c ev\<rparr> else c)
           (consumers w)\<rparr>"

section \<open>chat/consumers.py\<close>

subsection \<open>Database methods of the consumer\<close>

definition check_participant :: "database \<Rightarrow> int \<Rightarrow> int \<Rightarrow> bool" where
  "check_participant d cid uid =
     (\<exists>p \<in> set (participants d). p_conversation p = cid \<and> p_user p = uid)"

definition update_online_status :: "database \<Rightarrow> int \<Rightarrow> bool \<Rightarrow> database" where
  "update_online_status d uid is_online =
     d\<lparr>users := map (\<lambda>u. if u_id u = uid then u\<lparr>u_is_online := is_online\<rparr> else u) (users d)\<rparr>"

text \<open>
  \<^verbatim>\<open>update_or_create\<close>: the row of the pair is saved again, which stamps
  \<^verbatim>\<open>started_at\<close> (\<^verbatim>\<open>auto_now\<close>), or a row is created; the foreign key of a new row
  needs its conversation.
\<close>

definition add_typing_indicator :: "database \<Rightarrow> int \<Rightarrow> int \<Rightarrow> int \<Rightarrow> exn + database" where
  "add_typing_indicator d cid uid now =
     (if \<exists>t \<in> set (typing_indicators d). ti_conversation t = cid \<and> ti_user t = uid
      then Inr (d\<lparr>typing_indicators :=
                    map (\<lambda>t. if ti_conversation t = cid \<and> ti_user t = uid
                              then t\<lparr>ti_started_at := now\<rparr> else t)
                      (typing_indicators d)\<rparr>)
      else if \<exists>c \<in> set (conversations d). cv_id c = cid
      then Inr (d\<lparr>typing_indicators :=
                    typing_indicators d
                      @ [\<lparr>ti_conversation = cid, ti_user = uid, ti_started_at = now\<rparr>]\<rparr>)
      else Inl IntegrityError)"

definition remove_typing_indicator :: "database \<Rightarrow> int \<Rightarrow> int \<Rightarrow> database" where
  "remove_typing_indicator d cid uid =
     d\<lparr>typing_indicators :=
         [t \<leftarrow> typing_indicators d. \<not> (ti_conversation t = cid \<and> ti_user t = uid)]\<rparr>"

text \<open>
  \<^verbatim>\<open>save_message\<close> returns \<^verbatim>\<open>None\<close> when the conversation is gone
  (\<^verbatim>\<open>Conversation.DoesNotExist\<close> is caught); otherwise the message is created with the
  next identity and the conversation's \<^verbatim>\<open>updated_at\<close> is stamped. A sender that is not
  a user row is refused by the assignment to the foreign key.
\<close>

definition save_message ::
  "database \<Rightarrow> consumer \<Rightarrow> string \<Rightarrow> int \<Rightarrow> exn + database \<times> message option" where
  "save_message d self content now =
     (case find (\<lambda>c. cv_id c = conversation_id self) (conversations d) of
        None \<Rightarrow> Inr (d, None)
      | Some conv \<Rightarrow>
          (case c_user self of
             AnonymousUser \<Rightarrow> Inl ValueError
           | User uid uname \<Rightarrow>
               let m = \<lparr>m_id = message_seq d + 1, m_conversation = cv_id conv, m_sender = uid,
                        m_type = ''text'', m_content = content, m_created_at = now\<rparr>
               in Inr (d\<lparr>messages := messages d @ [m],
                         message_seq := message_seq d + 1,
                         conversations :=
                           map (\<lambda>c. if cv_id c = cv_id conv then c\<lparr>cv_updated_at := now\<rparr> else c)
                             (conversations d)\<rparr>,
                       Some m)))"

definition serialize_message :: "consumer \<Rightarrow> message \<Rightarrow> message_data" where
  "serialize_message self m =
     \<lparr>md_id = m_id m, md_conversation = m_conversation m, md_sender = m_sender m,
      md_sender_username = (case c_user self of AnonymousUser \<Rightarrow> [] | User uid uname \<Rightarrow> uname),
      md_type = m_type m, md_content = m_content m, md_created_at = m_created_at m,
      md_is_read = False\<rparr>"

text \<open>
  \<^verbatim>\<open>mark_message_read\<close>: \<^verbatim>\<open>Message.objects.get(id=message_id)\<close>, whose
  \<^verbatim>\<open>DoesNotExist\<close> is passed over, then \<^verbatim>\<open>get_or_create\<close> of the row of the pair
  (message, user).
\<close>

definition mark_message_read :: "database \<Rightarrow> consumer \<Rightarrow> json \<Rightarrow> int \<Rightarrow> exn + database" where
  "mark_message_read d self message_id now =
     (case pk_value message_id of
        Inl e \<Rightarrow> Inl e
      | Inr n \<Rightarrow>
          (case find (\<lambda>m. m_id m = n) (messages d) of
             None \<Rightarrow> Inr d
           | Some m \<Rightarrow>
               (case c_user self of
                  AnonymousUser \<Rightarrow> Inl TypeError
                | User uid uname \<Rightarrow>
                    if \<exists>r \<in> set (read_statuses d). rs_message r = m_id m \<and> rs_user r = uid
                    then Inr d
                    else Inr (d\<lparr>read_statuses :=
                                  read_statuses d
                                    @ [\<lparr>rs_message = m_id m, rs_user = uid, rs_read_at = now\<rparr>]\<rparr>))))"

subsection \<open>\<^verbatim>\<open>mark_message_read\<close>, query by query\<close>

text \<open>
  \<^verbatim>\<open>mark_message_read\<close> runs in a worker thread (\<^verbatim>\<open>database_sync_to_async\<close>), so the
  calls of two consumers can overlap. What the database makes atomic is a single
  query; between two queries of one call another call may run its own. The call
  is therefore also given as the sequence of its queries:
  \<^item> \<^verbatim>\<open>Message.objects.get(id=message_id)\<close>, whose \<^verbatim>\<open>DoesNotExist\<close> ends the call;
  \<^item> \<^verbatim>\<open>get_or_create\<close>, which the ORM runs as a \<^verbatim>\<open>get\<close> of the row of the pair, on
    \<^verbatim>\<open>DoesNotExist\<close> a \<^verbatim>\<open>create\<close>, and on the \<^verbatim>\<open>IntegrityError\<close> of that \<^verbatim>\<open>create\<close> a
    second \<^verbatim>\<open>get\<close>, after which the error is raised again if there is still no row.
  The insert is refused with \<^verbatim>\<open>IntegrityError\<close> when a row of the pair exists
  (\<^verbatim>\<open>unique_together\<close> of \<^verbatim>\<open>MessageReadStatus\<close>) or the message is gone (foreign
  key). A \<^verbatim>\<open>get\<close> that finds several rows raises \<^verbatim>\<open>MultipleObjectsReturned\<close>.
\<close>

datatype mmr_pc =
    Pc_get_message
  | Pc_get int
  | Pc_create int
  | Pc_get_again int
  | Pc_returned
  | Pc_raised exn

definition read_rows :: "database \<Rightarrow> int \<Rightarrow> int \<Rightarrow> read_status list" where
  "read_rows d mid uid = [r \<leftarrow> read_statuses d. rs_message r = mid \<and> rs_user r = uid]"

fun mmr_step :: "consumer \<Rightarrow> json \<Rightarrow> int \<Rightarrow> database \<times> mmr_pc \<Rightarrow> database \<times> mmr_pc" where
  "mmr_step self message_id now (d, Pc_get_message) =
     (case pk_value message_id of
        Inl e \<Rightarrow> (d, Pc_raised e)
      | Inr n \<Rightarrow>
          (case find (\<lambda>m. m_id m = n) (messages d) of
             None \<Rightarrow> (d, Pc_returned)
           | Some m \<Rightarrow> (d, Pc_get (m_id m))))"
| "mmr_step self message_id now (d, Pc_get mid) =
     (case c_user self of
        AnonymousUser \<Rightarrow> (d, Pc_raised TypeError)
      | User uid uname \<Rightarrow>
          (case read_rows d mid uid of
             [] \<Rightarrow> (d, Pc_create mid)
           | [r] \<Rightarrow> (d, Pc_returned)
           | _ \<Rightarrow> (d, Pc_raised MultipleObjectsReturned)))"
| "mmr_step self message_id now (d, Pc_create mid) =
     (case c_user self of
        AnonymousUser \<Rightarrow> (d, Pc_raised TypeError)
      | User uid uname \<Rightarrow>
          if read_rows d mid uid \<noteq> [] \<or> find (\<lambda>m. m_id m = mid) (messages d) = None
          then (d, Pc_get_again mid)
          else (d\<lparr>read_statuses :=
                     read_statuses d
                       @ [\<lparr>rs_message = mid, rs_user = uid, rs_read_at = now\<rparr>]\<rparr>,
                Pc_returned))"
| "mmr_step self message_id now (d, Pc_get_again mid) =
     (case c_user self of
        AnonymousUser \<Rightarrow> (d, Pc_raised TypeError)
      | User uid uname \<Rightarrow>
          (case read_rows d mid uid of
             [] \<Rightarrow> (d, Pc_raised IntegrityError)
           | [r] \<Rightarrow> (d, Pc_returned)
           | _ \<Rightarrow> (d, Pc_raised MultipleObjectsReturned)))"
| "mmr_step self message_id now (d, Pc_returned) = (d, Pc_returned)"
| "mmr_step self message_id now (d, Pc_raised e) = (d, Pc_raised e)"

text \<open>
  Two calls under a schedule: \<open>True\<close> lets the first call run its next query,
  \<open>False\<close> the second. A call that has ended stays as it is.
\<close>

record call =
  call_self :: consumer
  call_message_id :: json
  call_now :: int

type_synonym mmr_pair = "database \<times> mmr_pc \<times> mmr_pc"

fun step2 :: "call \<Rightarrow> call \<Rightarrow> bool \<Rightarrow> mmr_pair \<Rightarrow> mmr_pair" where
  "step2 c1 c2 True (d, p1, p2) =
     (case mmr_step (call_self c1) (call_message_id c1) (call_now c1) (d, p1) of
        (d', p1') \<Rightarrow> (d', p1', p2))"
| "step2 c1 c2 False (d, p1, p2) =
     (case mmr_step (call_self c2) (call_message_id c2) (call_now c2) (d, p2) of
        (d', p2') \<Rightarrow> (d', p1, p2'))"

fun run2 :: "call \<Rightarrow> call \<Rightarrow> bool list \<Rightarrow> mmr_pair \<Rightarrow> mmr_pair" where
  "run2 c1 c2 [] st = st"
| "run2 c1 c2 (b # bs) st = run2 c1 c2 bs (step2 c1 c2 b st)"

text \<open>How far a call has come: every query moves it on, and at 4 it has ended.\<close>

fun rank :: "mmr_pc \<Rightarrow> nat" where
  "rank Pc_get_message = 0"
| "rank (Pc_get mid) = 1"
| "rank (Pc_create mid) = 2"
| "rank (Pc_get_again mid) = 3"
| "rank Pc_returned = 4"
| "rank (Pc_raised e) = 4"

text \<open>
  What holds of two calls for the message \<open>n\<close> by the user \<open>uid\<close> whatever the
  schedule: the message is there, the pair has at most one row, no call has
  raised, and a call that is past its insert, or has returned, sees one row.
\<close>

definition mmr_inv :: "int \<Rightarrow> int \<Rightarrow> mmr_pair \<Rightarrow> bool" where
  "mmr_inv n uid st =
     (case st of (d, p1, p2) \<Rightarrow>
        find (\<lambda>m. m_id m = n) (messages d) \<noteq> None
        \<and> length (read_rows d n uid) \<le> 1
        \<and> p1 \<in> {Pc_get_message, Pc_get n, Pc_create n, Pc_get_again n, Pc_returned}
        \<and> p2 \<in> {Pc_get_message, Pc_get n, Pc_create n, Pc_get_again n, Pc_returned}
        \<and> (p1 \<in> {Pc_get_again n, Pc_returned} \<longrightarrow> length (read_rows d n uid) = 1)
        \<and> (p2 \<in> {Pc_get_again n, Pc_returned} \<longrightarrow> length (read_rows d n uid) = 1))"

subsection \<open>Connection handlers\<close>

definition connect :: "world \<Rightarrow> consumer \<Rightarrow> world" where
  "connect w self =
     (case c_user self of
        AnonymousUser \<Rightarrow> close w (channel_name self)
      | User uid uname \<Rightarrow>
          if \<not> check_participant (db w) (conversation_id self) uid
          then close w (channel_name self)
          else
            let w1 = group_add w (conversation_id self) (channel_name self);
                w2 = accept w1 (channel_name self);
                w3 = w2\<lparr>db := update_online_status (db w2) uid True\<rparr>
            in group_send w3 (conversation_id self) (Ev_user_status uid uname ''online''))"

text \<open>
  \<^verbatim>\<open>disconnect\<close> has no condition. With an anonymous user the first query matches no
  row and the second one, a filter on the user, raises.
\<close>

definition disconnect :: "world \<Rightarrow> consumer \<Rightarrow> int \<Rightarrow> exn + world" where
  "disconnect w self close_code =
     (case c_user self of
        AnonymousUser \<Rightarrow> Inl TypeError
      | User uid uname \<Rightarrow>
          let w1 = w\<lparr>db := update_online_status (db w) uid False\<rparr>;
              w2 = w1\<lparr>db := remove_typing_indicator (db w1) (conversation_id self) uid\<rparr>;
              w3 = group_send w2 (conversation_id self) (Ev_user_status uid uname ''offline'')
          in Inr (group_discard w3 (conversation_id self) (channel_name self)))"

subsection \<open>Inbound frames\<close>

definition handle_chat_message :: "world \<Rightarrow> consumer \<Rightarrow> json \<Rightarrow> int \<Rightarrow> exn + world" where
  "handle_chat_message w self data now =
     (case dict_get data ''content'' of
        Inl e \<Rightarrow> Inl e
      | Inr v \<Rightarrow>
          (case (case v of None \<Rightarrow> JStr [] | Some x \<Rightarrow> x) of
             JStr s \<Rightarrow>
               let content = strip s in
               if content = [] then Inr w
               else
                 (case save_message (db w) self content now of
                    Inl e \<Rightarrow> Inl e
                  | Inr (d, None) \<Rightarrow> Inr (w\<lparr>db := d\<rparr>)
                  | Inr (d, Some m) \<Rightarrow>
                      Inr (group_send (w\<lparr>db := d\<rparr>) (conversation_id self)
                             (Ev_chat_message_handler (serialize_message self m))))
           | _ \<Rightarrow> Inl AttributeError))"

definition handle_typing :: "world \<Rightarrow> consumer \<Rightarrow> json \<Rightarrow> int \<Rightarrow> exn + world" where
  "handle_typing w self data now =
     (case dict_get data ''is_typing'' of
        Inl e \<Rightarrow> Inl e
      | Inr v \<Rightarrow>
          let is_typing = (case v of None \<Rightarrow> JBool False | Some x \<Rightarrow> x) in
          (case c_user self of
             AnonymousUser \<Rightarrow> Inl TypeError
           | User uid uname \<Rightarrow>
               (case (if truthy is_typing
                      then add_typing_indicator (db w) (conversation_id self) uid now
                      else Inr (remove_typing_indicator (db w) (conversation_id self) uid)) of
                  Inl e \<Rightarrow> Inl e
                | Inr d \<Rightarrow>
                    Inr (group_send (w\<lparr>db := d\<rparr>) (conversation_id self)
                           (Ev_typing_indicator_handler uid uname is_typing)))))"

definition handle_read_receipt :: "world \<Rightarrow> consumer \<Rightarrow> json \<Rightarrow> int \<Rightarrow> exn + world" where
  "handle_read_receipt w self data now =
     (case dict_get data ''message_id'' of
        Inl e \<Rightarrow> Inl e
      | Inr None \<Rightarrow> Inr w
      | Inr (Some message_id) \<Rightarrow>
          if truthy message_id
          then (case mark_message_read (db w) self message_id now of
                  Inl e \<Rightarrow> Inl e
                | Inr d \<Rightarrow> Inr (w\<lparr>db := d\<rparr>))
          else Inr w)"

definition receive :: "world \<Rightarrow> consumer \<Rightarrow> json option \<Rightarrow> int \<Rightarrow> exn + world" where
  "receive w self text_data now =
     (case text_data of
        None \<Rightarrow> Inr (send w (channel_name self) (Out_error ''Invalid JSON''))
      | Some data \<Rightarrow>
          (case dict_get data ''type'' of
             Inl e \<Rightarrow> Inl e
           | Inr message_type \<Rightarrow>
               if message_type = Some (JStr ''chat_message'') then handle_chat_message w self data now
               else if message_type = Some (JStr ''typing'') then handle_typing w self data now
               else if message_type = Some (JStr ''read_receipt'') then handle_read_receipt w self data now
               else Inr (send w (channel_name self) (Out_error ''Unknown message type''))))"

section \<open>chat/views.py: marking a conversation read\<close>

text \<open>
  \<^verbatim>\<open>MessageMarkReadView.post\<close>, the request of a user \<open>uid\<close> for a conversation:
  \<open>None\<close> is the 404 answer. The participant's \<^verbatim>\<open>last_read_at\<close> is stamped, then
  every message of the conversation from somebody else that the user has no read
  row for gets one.
\<close>

definition get_or_create_read_status :: "int \<Rightarrow> int \<Rightarrow> read_status list \<Rightarrow> message \<Rightarrow> read_status list" where
  "get_or_create_read_status uid now rs m =
     (if \<exists>r \<in> set rs. rs_message r = m_id m \<and> rs_user r = uid then rs
      else rs @ [\<lparr>rs_message = m_id m, rs_user = uid, rs_read_at = now\<rparr>])"

definition mark_read_view :: "database \<Rightarrow> int \<Rightarrow> int \<Rightarrow> int \<Rightarrow> database option" where
  "mark_read_view d cid uid now =
     (if (\<exists>c \<in> set (conversations d). cv_id c = cid) \<and> check_participant d cid uid
      then
        let unread_messages =
              [m \<leftarrow> messages d. m_conversation m = cid \<and> m_sender m \<noteq> uid
                 \<and> \<not> (\<exists>r \<in> set (read_statuses d). rs_message r = m_id m \<and> rs_user r = uid)]
        in Some (d\<lparr>participants :=
                      map (\<lambda>p. if p_conversation p = cid \<and> p_user p = uid
                                then p\<lparr>p_last_read_at := Some now\<rparr> else p)
                        (participants d),
                    read_statuses :=
                      foldl (get_or_create_read_status uid now) (read_statuses d) unread_messages\<rparr>)
      else None)"

section \<open>An example state\<close>

text \<open>
  Two conversations. Alice is connected to the first one from two devices and Bob
  from one; Carol is connected to the second one and, not being a participant of the
  first, has a socket to the first that is still in the handshake. The first conversation holds one message, from Alice, that Bob
  has not read; the second one holds a message from Carol.
\<close>

definition example_db :: database where
  "example_db =
     \<lparr>users = [\<lparr>u_id = 1, u_username = ''alice'', u_is_online = True\<rparr>,
               \<lparr>u_id = 2, u_username = ''bob'', u_is_online = True\<rparr>,
               \<lparr>u_id = 3, u_username = ''carol'', u_is_online = True\<rparr>],
      conversations = [\<lparr>cv_id = 1, cv_updated_at = 10\<rparr>, \<lparr>cv_id = 2, cv_updated_at = 11\<rparr>],
      participants = [\<lparr>p_conversation = 1, p_user = 1, p_last_read_at = None\<rparr>,
                      \<lparr>p_conversation = 1, p_user = 2, p_last_read_at = None\<rparr>,
                      \<lparr>p_conversation = 2, p_user = 2, p_last_read_at = None\<rparr>,
                      \<lparr>p_conversation = 2, p_user = 3, p_last_read_at = None\<rparr>],
      messages = [\<lparr>m_id = 1, m_conversation = 1, m_sender = 1, m_type = ''text'',
                   m_content = ''hi'', m_created_at = 10\<rparr>,
                  \<lparr>m_id = 2, m_conversation = 2, m_sender = 3, m_type = ''text'',
                   m_content = ''hello'', m_created_at = 11\<rparr>],
      read_statuses = [],
      typing_indicators = [],
      message_seq = 2\<rparr>"

definition alice_phone :: consumer where
  "alice_phone = \<lparr>channel_name = ''a1'', conversation_id = 1, c_user = User 1 ''alice'',
                   c_state = Accepted, sent = []\<rparr>"

definition alice_laptop :: consumer where
  "alice_laptop = \<lparr>channel_name = ''a2'', conversation_id = 1, c_user = User 1 ''alice'',
                    c_state = Accepted, sent = []\<rparr>"

definition bob_phone :: consumer where
  "bob_phone = \<lparr>channel_name = ''b1'', conversation_id = 1, c_user = User 2 ''bob'',
                 c_state = Accepted, sent = []\<rparr>"

definition carol_knocking :: consumer where
  "carol_knocking = \<lparr>channel_name = ''c1'', conversation_id = 1, c_user = User 3 ''carol'',
                      c_state = Connecting, sent = []\<rparr>"

definition carol_phone :: consumer where
  "carol_phone = \<lparr>channel_name = ''c2'', conversation_id = 2, c_user = User 3 ''carol'',
                   c_state = Accepted, sent = []\<rparr>"

definition example_world :: world where
  "example_world =
     \<lparr>db = example_db,
      groups = (\<lambda>g. if g = 1 then {''a1'', ''a2'', ''b1''} else if g = 2 then {''c2''} else {}),
      consumers = [alice_phone, alice_laptop, bob_phone, carol_knocking, carol_phone]\<rparr>"

text \<open>
  The first conversation deleted while the sockets to it stay open: the REST view
  \<^verbatim>\<open>ConversationDeleteView\<close> deletes a conversation when its last participant leaves,
  and the rows that refer to it go with it; the consumer checks membership at
  \<^verbatim>\<open>connect\<close> only.
\<close>

definition deleted_db :: database where
  "deleted_db =
     example_db\<lparr>conversations := [\<lparr>cv_id = 2, cv_updated_at = 11\<rparr>],
                participants := [\<lparr>p_conversation = 2, p_user = 2, p_last_read_at = None\<rparr>,
                                 \<lparr>p_conversation = 2, p_user = 3, p_last_read_at = None\<rparr>],
                messages := [\<lparr>m_id = 2, m_conversation = 2, m_sender = 3, m_type = ''text'',
                              m_content = ''hello'', m_created_at = 11\<rparr>]\<rparr>"

definition deleted_world :: world where
  "deleted_world = example_world\<lparr>db := deleted_db\<rparr>"

text \<open>The same hub before Alice's second device has joined.\<close>

definition alice_laptop_knocking :: consumer where
  "alice_laptop_knocking = alice_laptop\<lparr>c_state := Connecting\<rparr>"

definition one_device_world :: world where
  "one_device_world =
     example_world\<lparr>groups := (\<lambda>g. if g = 1 then {''a1'', ''b1''} else if g = 2 then {''c2''} else {}),
                   consumers := [alice_phone, alice_laptop_knocking, bob_phone, carol_knocking,
                                 carol_phone]\<rparr>"

text \<open>Frames and rows used in the examples.\<close>

definition typing_frame :: json where
  "typing_frame = JObj [(''type'', JStr ''typing''), (''is_typing'', JBool True)]"

definition receipt_frame :: json where
  "receipt_frame = JObj [(''type'', JStr ''read_receipt''), (''message_id'', JInt 1)]"

definition bob_reads_on_phone :: call where
  "bob_reads_on_phone = \<lparr>call_self = bob_phone, call_message_id = JInt 1, call_now = 100\<rparr>"

definition bob_reads_on_tablet :: call where
  "bob_reads_on_tablet =
     \<lparr>call_self = bob_phone\<lparr>channel_name := ''b2''\<rparr>, call_message_id = JStr ''1'',
      call_now = 101\<rparr>"

definition bob_in_first :: participant where
  "bob_in_first = \<lparr>p_conversation = 1, p_user = 2, p_last_read_at = None\<rparr>"

section \<open>Presence, as the specification counts it\<close>

text \<open>
  The specification derives presence from the number of live sessions of a user. A
  session is live while its channel is in the group of its conversation, that is
  from \<^verbatim>\<open>group_add\<close> in \<^verbatim>\<open>connect\<close> to \<^verbatim>\<open>group_discard\<close> in \<^verbatim>\<open>disconnect\<close>. The
  code keeps the column \<^verbatim>\<open>is_online\<close> of the user's row instead.
\<close>

definition live_sessions :: "world \<Rightarrow> int \<Rightarrow> nat" where
  "live_sessions w uid =
     length [c \<leftarrow> consumers w. user_id (c_user c) = Some uid
               \<and> channel_name c \<in> groups w (conversation_id c)]"

definition is_online_flag :: "database \<Rightarrow> int \<Rightarrow> bool option" where
  "is_online_flag d uid = map_option u_is_online (find (\<lambda>u. u_id u = uid) (users d))"

lemmas example_defs =
  example_world_def example_db_def alice_phone_def alice_laptop_def bob_phone_def
  carol_knocking_def carol_phone_def deleted_db_def deleted_world_def
  alice_laptop_knocking_def one_device_world_def

section \<open>What a consumer has sent, through the primitives\<close>

lemma find_map_channel:
  assumes "\<And>c. channel_name (f c) = channel_name c"
  shows "find (\<lambda>c. channel_name c = ch) (map f cs)
           = map_option f (find (\<lambda>c. channel_name c = ch) cs)"
  using assms by (induction cs) auto

lemma find_channel_name:
  "find (\<lambda>c. channel_name c = ch) cs = Some c \<Longrightarrow> channel_name c = ch"
  by (auto simp: find_Some_iff)

lemma outbox_send:
  "outbox (send w ch f) ch' =
     (if ch' = ch \<and> find (\<lambda>c. channel_name c = ch) (consumers w) \<noteq> None
      then outbox w ch' @ [f] else outbox w ch')"
proof (cases "find (\<lambda>c. channel_name c = ch') (consumers w)")
  case None
  then show ?thesis by (auto simp: outbox_def send_def find_map_channel)
next
  case (Some c)
  then have "channel_name c = ch'" by (rule find_channel_name)
  with Some show ?thesis by (auto simp: outbox_def send_def find_map_channel)
qed

lemma state_of_send: "state_of (send w ch f) ch' = state_of w ch'"
  by (auto simp: state_of_def send_def find_map_channel option.map_comp comp_def
           intro!: option.map_cong)

lemma db_send: "db (send w ch f) = db w"
  by (simp add: send_def)

lemma groups_send: "groups (send w ch f) = groups w"
  by (simp add: send_def)

lemma outbox_group_send:
  assumes "find (\<lambda>c. channel_name c = ch) (consumers w) = Some c"
  shows "outbox (group_send w g ev) ch
           = (if ch \<in> groups w g then sent c @ dispatch c ev else sent c)"
proof -
  have "channel_name c = ch" using assms by (rule find_channel_name)
  then show ?thesis using assms
    by (auto simp: outbox_def group_send_def find_map_channel)
qed

lemma outbox_group_discard: "outbox (group_discard w g ch) ch' = outbox w ch'"
  by (simp add: outbox_def group_discard_def)

lemma db_group_send: "db (group_send w g ev) = db w"
  by (simp add: group_send_def)

lemma groups_group_send: "groups (group_send w g ev) = groups w"
  by (simp add: group_send_def)

lemma db_group_discard: "db (group_discard w g ch) = db w"
  by (simp add: group_discard_def)

lemma db_group_add: "db (group_add w g ch) = db w"
  by (simp add: group_add_def)

lemma consumers_group_add: "consumers (group_add w g ch) = consumers w"
  by (simp add: group_add_def)

lemma groups_group_add: "groups (group_add w g ch) g = insert ch (groups w g)"
  by (simp add: group_add_def)

lemma db_set_state: "db (set_state w ch st) = db w"
  by (simp add: set_state_def)

lemma groups_set_state: "groups (set_state w ch st) = groups w"
  by (simp add: set_state_def)

lemma find_set_state:
  "find (\<lambda>c. channel_name c = ch') (consumers (set_state w ch st))
     = map_option (\<lambda>c. if channel_name c = ch then c\<lparr>c_state := st\<rparr> else c)
         (find (\<lambda>c. channel_name c = ch') (consumers w))"
  by (simp add: set_state_def find_map_channel)

lemma outbox_set_state: "outbox (set_state w ch st) ch' = outbox w ch'"
  by (cases "find (\<lambda>c. channel_name c = ch') (consumers w)")
     (simp_all add: outbox_def find_set_state)

lemma find_map_user:
  assumes "\<And>u. u_id (f u) = u_id u"
  shows "find (\<lambda>u. u_id u = uid) (map f us) = map_option f (find (\<lambda>u. u_id u = uid) us)"
  using assms by (induction us) auto

lemma is_online_flag_update:
  "is_online_flag (update_online_status d uid b) uid = map_option (\<lambda>_. b) (is_online_flag d uid)"
proof (cases "find (\<lambda>u. u_id u = uid) (users d)")
  case None
  then show ?thesis by (simp add: is_online_flag_def update_online_status_def find_map_user)
next
  case (Some u)
  then have "u_id u = uid" by (auto simp: find_Some_iff)
  with Some show ?thesis by (simp add: is_online_flag_def update_online_status_def find_map_user)
qed

lemma is_online_flag_remove_typing:
  "is_online_flag (remove_typing_indicator d cid uid') uid = is_online_flag d uid"
  by (simp add: is_online_flag_def remove_typing_indicator_def)

subsection \<open>The example state\<close>

lemma example_consumers:
  "c_user alice_phone = User 1 ''alice''" "conversation_id alice_phone = 1"
  "channel_name alice_phone = ''a1''"
  "c_user alice_laptop = User 1 ''alice''" "conversation_id alice_laptop = 1"
  "channel_name alice_laptop = ''a2''"
  "c_user bob_phone = User 2 ''bob''" "conversation_id bob_phone = 1"
  "channel_name bob_phone = ''b1''"
  "c_user carol_knocking = User 3 ''carol''" "conversation_id carol_knocking = 1"
  "channel_name carol_knocking = ''c1''"
  "c_user alice_laptop_knocking = User 1 ''alice''" "conversation_id alice_laptop_knocking = 1"
  "channel_name alice_laptop_knocking = ''a2''"
  by (simp_all add: example_defs)

lemma example_alice_phone:
  "find (\<lambda>c. channel_name c = channel_name alice_phone) (consumers example_world)
     = Some alice_phone"
  "outbox example_world ''a1'' = []"
  "state_of example_world ''a1'' = Some Accepted"
  "groups example_world 1 = {''a1'', ''a2'', ''b1''}"
  by (simp_all add: example_defs outbox_def state_of_def)

lemma example_bob_phone:
  "find (\<lambda>c. channel_name c = ''b1'') (consumers example_world) = Some bob_phone"
  "find (\<lambda>c. channel_name c = ''b1'') (consumers one_device_world) = Some bob_phone"
  "sent bob_phone = []"
  "''b1'' \<in> groups example_world 1"
  "''b1'' \<in> groups one_device_world 1"
  by (simp_all add: example_defs)

section \<open>The handlers, case by case\<close>

lemma disconnect_user:
  assumes "c_user self = User uid uname"
  shows "disconnect w self close_code
           = Inr (group_discard
                    (group_send
                       (w\<lparr>db := remove_typing_indicator (update_online_status (db w) uid False)
                                  (conversation_id self) uid\<rparr>)
                       (conversation_id self) (Ev_user_status uid uname ''offline''))
                    (conversation_id self) (channel_name self))"
  using assms by (simp add: disconnect_def)

lemma connect_participant:
  assumes "c_user self = User uid uname"
      and "check_participant (db w) (conversation_id self) uid"
  shows "connect w self
           = group_send
               ((accept (group_add w (conversation_id self) (channel_name self)) (channel_name self))
                  \<lparr>db := update_online_status (db w) uid True\<rparr>)
               (conversation_id self) (Ev_user_status uid uname ''online'')"
  using assms by (simp add: connect_def accept_def db_set_state db_group_add)

lemma connect_refused:
  assumes "c_user self = User uid uname"
      and "\<not> check_participant (db w) (conversation_id self) uid"
  shows "connect w self = close w (channel_name self)"
  using assms by (simp add: connect_def)

section \<open>Typing indicators: \<^verbatim>\<open>is_active\<close>\<close>

text \<open>
  While less than a day has passed since the stamp, \<^verbatim>\<open>is_active\<close> is the test
  "less than five seconds ago".
\<close>

lemma is_active_within_a_day:
  assumes "0 \<le> now - ti_started_at ti" and "now - ti_started_at ti < 86400 * 1000000"
  shows "is_active now ti \<longleftrightarrow> now - ti_started_at ti < 5 * 1000000"
proof -
  let ?d = "now - ti_started_at ti"
  have "0 \<le> ?d div 1000000" using assms by simp
  moreover have "?d div 1000000 < 86400" using assms by simp
  ultimately have "(?d div 1000000) mod 86400 = ?d div 1000000" by simp
  moreover have "?d div 1000000 < 5 \<longleftrightarrow> ?d < 5 * 1000000" by linarith
  ultimately show ?thesis by (simp add: is_active_def timedelta_seconds_def)
qed

text \<open>
  C4. The claim: \<^verbatim>\<open>is_active\<close> is true iff less than five seconds have passed since
  the last signal, so false after any silence of five seconds or more. The docstring
  of \<^verbatim>\<open>is_active\<close> says the same ("within 5 seconds"). The code reads \<^verbatim>\<open>.seconds\<close>,
  the seconds component of the difference, which starts again at 0 with every full
  day: an indicator stamped one day and one second ago, never renewed and never
  cleared, is reported active.
\<close>

theorem is_active_one_day_and_one_second_later:
  "is_active (86401 * 1000000) \<lparr>ti_conversation = 1, ti_user = 1, ti_started_at = 0\<rparr>"
  by (simp add: is_active_def timedelta_seconds_def)

section \<open>Inbound frames\<close>

text \<open>
  C7. A \<^verbatim>\<open>chat_message\<close> frame whose content is empty after \<^verbatim>\<open>strip()\<close> leaves the
  whole state as it was: no message row, nothing sent to the group, nothing sent
  to the sender.
\<close>

theorem empty_chat_message_is_dropped:
  assumes "map_of kvs ''type'' = Some (JStr ''chat_message'')"
      and "map_of kvs ''content'' = Some (JStr s)"
      and "strip s = []"
  shows "receive w self (Some (JObj kvs)) now = Inr w"
  using assms by (simp add: receive_def handle_chat_message_def)

theorem empty_chat_message_is_dropped_witness:
  "strip ''   '' = []
   \<and> receive example_world alice_phone
        (Some (JObj [(''type'', JStr ''chat_message''), (''content'', JStr ''   '')])) 100
       = Inr example_world"
  using empty_chat_message_is_dropped
          [of "[(''type'', JStr ''chat_message''), (''content'', JStr ''   '')]" "''   ''"
              example_world alice_phone 100]
  by (simp add: strip_def is_space_def)

text \<open>
  A text that is not JSON, or an object whose \<^verbatim>\<open>type\<close> is none of
  \<^verbatim>\<open>chat_message\<close>, \<^verbatim>\<open>typing\<close>, \<^verbatim>\<open>read_receipt\<close> (or is missing), gets an error
  frame on the socket it came from and changes nothing else: the state of every
  socket, the groups and the tables stay, so the session is still joined and still
  gets what is sent to its group.
\<close>

lemma unknown_type_or_bad_json_gets_error_frame:
  assumes "text_data = None
           \<or> (\<exists>kvs. text_data = Some (JObj kvs)
                 \<and> map_of kvs ''type'' \<noteq> Some (JStr ''chat_message'')
                 \<and> map_of kvs ''type'' \<noteq> Some (JStr ''typing'')
                 \<and> map_of kvs ''type'' \<noteq> Some (JStr ''read_receipt''))"
      and "find (\<lambda>c. channel_name c = channel_name self) (consumers w) = Some c"
  shows "\<exists>msg w'. receive w self text_data now = Inr w'
           \<and> outbox w' (channel_name self) = outbox w (channel_name self) @ [Out_error msg]
           \<and> (\<forall>ch. ch \<noteq> channel_name self \<longrightarrow> outbox w' ch = outbox w ch)
           \<and> (\<forall>ch. state_of w' ch = state_of w ch)
           \<and> groups w' = groups w \<and> db w' = db w"
proof -
  from assms(1) obtain msg where
    "receive w self text_data now = Inr (send w (channel_name self) (Out_error msg))"
    by (auto simp: receive_def)
  then show ?thesis using assms(2)
    by (auto simp: outbox_send state_of_send db_send groups_send)
qed

lemma unknown_type_or_bad_json_gets_error_frame_example:
  "(\<exists>msg w'. receive example_world alice_phone None 100 = Inr w'
      \<and> outbox w' ''a1'' = [Out_error msg]
      \<and> state_of w' ''a1'' = Some Accepted
      \<and> ''a1'' \<in> groups w' 1)
   \<and> (\<exists>msg w'. receive example_world alice_phone (Some (JObj [(''type'', JStr ''ping'')])) 100
                  = Inr w'
      \<and> outbox w' ''a1'' = [Out_error msg]
      \<and> state_of w' ''a1'' = Some Accepted
      \<and> ''a1'' \<in> groups w' 1)"
proof
  have "None = None \<or> (\<exists>kvs. None = Some (JObj kvs)
                 \<and> map_of kvs ''type'' \<noteq> Some (JStr ''chat_message'')
                 \<and> map_of kvs ''type'' \<noteq> Some (JStr ''typing'')
                 \<and> map_of kvs ''type'' \<noteq> Some (JStr ''read_receipt''))"
    by simp
  from unknown_type_or_bad_json_gets_error_frame [OF this example_alice_phone(1), of 100]
  show "\<exists>msg w'. receive example_world alice_phone None 100 = Inr w'
      \<and> outbox w' ''a1'' = [Out_error msg]
      \<and> state_of w' ''a1'' = Some Accepted
      \<and> ''a1'' \<in> groups w' 1"
    by (auto simp: example_alice_phone example_consumers)
next
  let ?f = "Some (JObj [(''type'', JStr ''ping'')])"
  have "?f = None \<or> (\<exists>kvs. ?f = Some (JObj kvs)
                 \<and> map_of kvs ''type'' \<noteq> Some (JStr ''chat_message'')
                 \<and> map_of kvs ''type'' \<noteq> Some (JStr ''typing'')
                 \<and> map_of kvs ''type'' \<noteq> Some (JStr ''read_receipt''))"
    by simp
  from unknown_type_or_bad_json_gets_error_frame [OF this example_alice_phone(1), of 100]
  show "\<exists>msg w'. receive example_world alice_phone ?f 100 = Inr w'
      \<and> outbox w' ''a1'' = [Out_error msg]
      \<and> state_of w' ''a1'' = Some Accepted
      \<and> ''a1'' \<in> groups w' 1"
    by (auto simp: example_alice_phone example_consumers)
qed

text \<open>
  A text that is JSON but not an object decodes to a list, a number, a string, a
  truth value or \<^verbatim>\<open>None\<close>, none of which has \<^verbatim>\<open>get\<close>: \<^verbatim>\<open>receive\<close> raises
  \<^verbatim>\<open>AttributeError\<close>, which its \<^verbatim>\<open>except json.JSONDecodeError\<close> does not catch.
\<close>

lemma non_object_json_raises:
  assumes "\<forall>kvs. data \<noteq> JObj kvs"
  shows "receive w self (Some data) now = Inl AttributeError"
  using assms by (cases data) (auto simp: receive_def)

text \<open>
  C9. The claim: every frame that is malformed, or whose type is none of the three,
  is answered with an error frame, and the connection stays open. For undecodable
  text and for objects the code does so. The frames \<^verbatim>\<open>[]\<close>, \<^verbatim>\<open>5\<close>,
  \<^verbatim>\<open>"chat_message"\<close> and \<^verbatim>\<open>null\<close> are well-formed JSON with no type at all: on each
  of them \<^verbatim>\<open>receive\<close> ends with the uncaught \<^verbatim>\<open>AttributeError\<close>, so no error frame
  is sent and the handler does not return normally.
\<close>

theorem non_object_json_gets_no_error_frame:
  "receive example_world alice_phone (Some (JArr [])) 100 = Inl AttributeError
   \<and> receive example_world alice_phone (Some (JInt 5)) 100 = Inl AttributeError
   \<and> receive example_world alice_phone (Some (JStr ''chat_message'')) 100 = Inl AttributeError
   \<and> receive example_world alice_phone (Some JNull) 100 = Inl AttributeError"
  by (simp add: receive_def)

text \<open>
  C2. The claim: when the message cannot be stored, the sender gets an error event
  and nobody gets a broadcast. \<^verbatim>\<open>save_message\<close> fails by returning \<^verbatim>\<open>None\<close>, when the
  conversation is gone, and \<^verbatim>\<open>handle_chat_message\<close> then sends nothing at all: in
  the state whose first conversation has been deleted, Alice's \<^verbatim>\<open>hi\<close> is not stored
  and her socket gets no frame.
\<close>

theorem failed_save_sends_no_error_event:
  "save_message (db deleted_world) alice_phone ''hi'' 100 = Inr (db deleted_world, None)
   \<and> receive deleted_world alice_phone
        (Some (JObj [(''type'', JStr ''chat_message''), (''content'', JStr ''hi'')])) 100
       = Inr deleted_world
   \<and> outbox deleted_world ''a1'' = []"
  by (simp add: receive_def handle_chat_message_def save_message_def example_defs strip_def
        is_space_def outbox_def)

text \<open>
  C2, as the code has it: when \<^verbatim>\<open>save_message\<close> returns \<^verbatim>\<open>None\<close> the whole state stays
  as it was, so no session gets a broadcast and the sender gets no error event
  either.
\<close>

theorem failed_save_is_silent:
  assumes "map_of kvs ''type'' = Some (JStr ''chat_message'')"
      and "map_of kvs ''content'' = Some (JStr s)"
      and "strip s \<noteq> []"
      and "save_message (db w) self (strip s) now = Inr (d, None)"
  shows "receive w self (Some (JObj kvs)) now = Inr w"
proof -
  have "d = db w" using assms(4)
    by (auto simp: save_message_def Let_def split: option.splits scope_user.splits)
  with assms show ?thesis
    by (simp add: receive_def handle_chat_message_def)
qed

theorem failed_save_is_silent_witness:
  "strip ''hi'' \<noteq> []
   \<and> save_message (db deleted_world) alice_phone (strip ''hi'') 100 = Inr (deleted_db, None)
   \<and> receive deleted_world alice_phone
        (Some (JObj [(''type'', JStr ''chat_message''), (''content'', JStr ''hi'')])) 100
       = Inr deleted_world"
proof -
  have s: "strip ''hi'' = ''hi''" by (simp add: strip_def is_space_def)
  have m: "save_message (db deleted_world) alice_phone (strip ''hi'') 100 = Inr (deleted_db, None)"
    by (simp add: s save_message_def example_defs)
  from failed_save_is_silent
         [of "[(''type'', JStr ''chat_message''), (''content'', JStr ''hi'')]" "''hi''"
             deleted_world alice_phone 100 deleted_db] m s
  show ?thesis by simp
qed

section \<open>Read receipts\<close>

text \<open>
  C10. A \<^verbatim>\<open>read_receipt\<close> for an existing message creates (or finds) the read row of
  the pair (message, user) whatever conversation the message is in: the statement
  asks nothing of the message's conversation nor of the user's membership in it,
  because the code looks at neither. For an identity that no message has, the
  frame changes nothing and sends nothing.
\<close>

theorem read_receipt_ignores_the_conversation:
  assumes "map_of kvs ''type'' = Some (JStr ''read_receipt'')"
      and "map_of kvs ''message_id'' = Some (JInt n)"
      and "c_user self = User uid uname"
  shows "(find (\<lambda>m. m_id m = n) (messages (db w)) = Some m \<and> n \<noteq> 0 \<longrightarrow>
           (\<exists>w'. receive w self (Some (JObj kvs)) now = Inr w'
              \<and> (\<exists>r \<in> set (read_statuses (db w')). rs_message r = n \<and> rs_user r = uid)
              \<and> consumers w' = consumers w \<and> groups w' = groups w))
       \<and> (find (\<lambda>m. m_id m = n) (messages (db w)) = None \<longrightarrow>
           receive w self (Some (JObj kvs)) now = Inr w)"
proof (intro conjI impI)
  assume a: "find (\<lambda>m. m_id m = n) (messages (db w)) = Some m \<and> n \<noteq> 0"
  then have "m_id m = n" by (auto simp: find_Some_iff)
  with a assms show "\<exists>w'. receive w self (Some (JObj kvs)) now = Inr w'
              \<and> (\<exists>r \<in> set (read_statuses (db w')). rs_message r = n \<and> rs_user r = uid)
              \<and> consumers w' = consumers w \<and> groups w' = groups w"
    by (auto simp: receive_def handle_read_receipt_def mark_message_read_def)
next
  assume "find (\<lambda>m. m_id m = n) (messages (db w)) = None"
  with assms show "receive w self (Some (JObj kvs)) now = Inr w"
    by (auto simp: receive_def handle_read_receipt_def mark_message_read_def)
qed

text \<open>
  Alice, joined to conversation 1 and no participant of conversation 2, marks
  Carol's message in conversation 2 as read; her receipt for message 99 does nothing.
\<close>

theorem read_receipt_ignores_the_conversation_witness:
  "conversation_id alice_phone = 1
   \<and> \<not> check_participant (db example_world) 2 1
   \<and> map m_conversation [m \<leftarrow> messages (db example_world). m_id m = 2] = [2]
   \<and> (\<exists>w'. receive example_world alice_phone
              (Some (JObj [(''type'', JStr ''read_receipt''), (''message_id'', JInt 2)])) 100 = Inr w'
          \<and> (\<exists>r \<in> set (read_statuses (db w')). rs_message r = 2 \<and> rs_user r = 1))
   \<and> receive example_world alice_phone
        (Some (JObj [(''type'', JStr ''read_receipt''), (''message_id'', JInt 99)])) 100
       = Inr example_world"
proof -
  have f2: "find (\<lambda>m. m_id m = 2) (messages (db example_world))
              = Some \<lparr>m_id = 2, m_conversation = 2, m_sender = 3, m_type = ''text'',
                      m_content = ''hello'', m_created_at = 11\<rparr>"
    by (simp add: example_defs)
  have f99: "find (\<lambda>m. m_id m = 99) (messages (db example_world)) = None"
    by (simp add: example_defs)
  have p: "\<not> check_participant (db example_world) 2 1"
    by (simp add: check_participant_def example_defs)
  have c: "map m_conversation [m \<leftarrow> messages (db example_world). m_id m = 2] = [2]"
    by (simp add: example_defs)
  from read_receipt_ignores_the_conversation
         [where kvs = "[(''type'', JStr ''read_receipt''), (''message_id'', JInt 2)]" and n = 2
            and self = alice_phone and uid = 1 and uname = "''alice''" and w = example_world
            and now = 100
            and m = "\<lparr>m_id = 2, m_conversation = 2, m_sender = 3, m_type = ''text'',
                      m_content = ''hello'', m_created_at = 11\<rparr>"] f2
  have a: "\<exists>w'. receive example_world alice_phone
              (Some (JObj [(''type'', JStr ''read_receipt''), (''message_id'', JInt 2)])) 100 = Inr w'
          \<and> (\<exists>r \<in> set (read_statuses (db w')). rs_message r = 2 \<and> rs_user r = 1)"
    by (auto simp: example_consumers)
  from read_receipt_ignores_the_conversation
         [where kvs = "[(''type'', JStr ''read_receipt''), (''message_id'', JInt 99)]" and n = 99
            and self = alice_phone and uid = 1 and uname = "''alice''" and w = example_world
            and now = 100] f99
  have b: "receive example_world alice_phone
        (Some (JObj [(''type'', JStr ''read_receipt''), (''message_id'', JInt 99)])) 100
       = Inr example_world"
    by (simp add: example_consumers)
  show ?thesis using a b p c by (simp add: example_consumers)
qed

subsection \<open>Two calls for the same message and user\<close>

text \<open>
  Every query of either call keeps \<open>mmr_inv\<close>, and moves the call that runs it
  one step on.
\<close>

lemma length_le_1_cases:
  assumes "length xs \<le> 1"
  obtains "xs = []" | x where "xs = [x]"
  using assms by (cases xs) (auto simp: le_Suc_eq)

lemma mmr_step_one:
  assumes "c_user self = User uid uname"
      and "pk_value v = Inr n"
      and "find (\<lambda>m. m_id m = n) (messages d) = Some m"
      and "length (read_rows d n uid) \<le> 1"
      and "p \<in> {Pc_get_message, Pc_get n, Pc_create n, Pc_get_again n, Pc_returned}"
      and "p \<in> {Pc_get_again n, Pc_returned} \<longrightarrow> length (read_rows d n uid) = 1"
      and "mmr_step self v now (d, p) = (d', p')"
  shows "messages d' = messages d"
    and "length (read_rows d' n uid) \<le> 1"
    and "length (read_rows d n uid) \<le> length (read_rows d' n uid)"
    and "p' \<in> {Pc_get_message, Pc_get n, Pc_create n, Pc_get_again n, Pc_returned}"
    and "p' \<in> {Pc_get_again n, Pc_returned} \<longrightarrow> length (read_rows d' n uid) = 1"
proof -
  have mid: "m_id m = n" using assms(3) by (auto simp: find_Some_iff)
  from assms(4) consider "read_rows d n uid = []" | r where "read_rows d n uid = [r]"
    by (rule length_le_1_cases)
  then have "messages d' = messages d
    \<and> length (read_rows d' n uid) \<le> 1
    \<and> length (read_rows d n uid) \<le> length (read_rows d' n uid)
    \<and> p' \<in> {Pc_get_message, Pc_get n, Pc_create n, Pc_get_again n, Pc_returned}
    \<and> (p' \<in> {Pc_get_again n, Pc_returned} \<longrightarrow> length (read_rows d' n uid) = 1)"
  proof cases
    case 1
    with assms mid show ?thesis by (auto simp: read_rows_def)
  next
    case 2
    with assms mid show ?thesis by (auto simp: read_rows_def)
  qed
  then show "messages d' = messages d"
    and "length (read_rows d' n uid) \<le> 1"
    and "length (read_rows d n uid) \<le> length (read_rows d' n uid)"
    and "p' \<in> {Pc_get_message, Pc_get n, Pc_create n, Pc_get_again n, Pc_returned}"
    and "p' \<in> {Pc_get_again n, Pc_returned} \<longrightarrow> length (read_rows d' n uid) = 1"
    by simp_all
qed

lemma mmr_inv_step2:
  assumes "c_user (call_self c1) = User uid uname1" and "pk_value (call_message_id c1) = Inr n"
      and "c_user (call_self c2) = User uid uname2" and "pk_value (call_message_id c2) = Inr n"
      and "mmr_inv n uid st"
  shows "mmr_inv n uid (step2 c1 c2 b st)"
proof -
  obtain d p1 p2 where st: "st = (d, p1, p2)" by (cases st)
  from assms(5) st obtain m where m: "find (\<lambda>m. m_id m = n) (messages d) = Some m"
    by (auto simp: mmr_inv_def)
  from assms(5) st have inv:
    "length (read_rows d n uid) \<le> 1"
    "p1 \<in> {Pc_get_message, Pc_get n, Pc_create n, Pc_get_again n, Pc_returned}"
    "p2 \<in> {Pc_get_message, Pc_get n, Pc_create n, Pc_get_again n, Pc_returned}"
    "p1 \<in> {Pc_get_again n, Pc_returned} \<longrightarrow> length (read_rows d n uid) = 1"
    "p2 \<in> {Pc_get_again n, Pc_returned} \<longrightarrow> length (read_rows d n uid) = 1"
    by (simp_all add: mmr_inv_def)
  show ?thesis
  proof (cases b)
    case True
    obtain d' p1' where
      s: "mmr_step (call_self c1) (call_message_id c1) (call_now c1) (d, p1) = (d', p1')"
      by (cases "mmr_step (call_self c1) (call_message_id c1) (call_now c1) (d, p1)")
    note r = mmr_step_one [OF assms(1,2) m inv(1) inv(2) inv(4) s]
    have "p2 \<in> {Pc_get_again n, Pc_returned} \<longrightarrow> length (read_rows d' n uid) = 1"
      using inv(5) r(2,3) by auto
    with r inv(3) m show ?thesis by (simp add: st True s mmr_inv_def)
  next
    case False
    obtain d' p2' where
      s: "mmr_step (call_self c2) (call_message_id c2) (call_now c2) (d, p2) = (d', p2')"
      by (cases "mmr_step (call_self c2) (call_message_id c2) (call_now c2) (d, p2)")
    note r = mmr_step_one [OF assms(3,4) m inv(1) inv(3) inv(5) s]
    have "p1 \<in> {Pc_get_again n, Pc_returned} \<longrightarrow> length (read_rows d' n uid) = 1"
      using inv(4) r(2,3) by auto
    with r inv(2) m show ?thesis by (simp add: st False s mmr_inv_def)
  qed
qed

lemma mmr_inv_run2:
  assumes "c_user (call_self c1) = User uid uname1" and "pk_value (call_message_id c1) = Inr n"
      and "c_user (call_self c2) = User uid uname2" and "pk_value (call_message_id c2) = Inr n"
  shows "mmr_inv n uid st \<Longrightarrow> mmr_inv n uid (run2 c1 c2 bs st)"
proof (induction bs arbitrary: st)
  case Nil
  then show ?case by simp
next
  case (Cons b bs)
  then show ?case using mmr_inv_step2 [OF assms] by simp
qed

lemma rank_mmr_step:
  "min 4 (Suc (rank p)) \<le> rank (snd (mmr_step self v now (d, p)))"
  by (cases p)
     (auto split: sum.splits option.splits scope_user.splits list.splits)

lemma rank_step2:
  "min 4 (rank p1 + (if b then 1 else 0)) \<le> rank (fst (snd (step2 c1 c2 b (d, p1, p2))))"
  "min 4 (rank p2 + (if b then 0 else 1)) \<le> rank (snd (snd (step2 c1 c2 b (d, p1, p2))))"
  using rank_mmr_step [of p1 "call_self c1" "call_message_id c1" "call_now c1" d]
        rank_mmr_step [of p2 "call_self c2" "call_message_id c2" "call_now c2" d]
  by (cases b; auto split: prod.splits)+

lemma rank_run2:
  "min 4 (rank (fst (snd st)) + length (filter id bs)) \<le> rank (fst (snd (run2 c1 c2 bs st)))
   \<and> min 4 (rank (snd (snd st)) + length (filter Not bs))
       \<le> rank (snd (snd (run2 c1 c2 bs st)))"
proof (induction bs arbitrary: st)
  case Nil
  then show ?case by simp
next
  case (Cons b bs)
  obtain d p1 p2 where st: "st = (d, p1, p2)" by (cases st)
  let ?s = "step2 c1 c2 b (d, p1, p2)"
  from Cons.IH [of ?s] rank_step2 [of p1 b c1 c2 d p2] rank_step2 (2) [of p2 b c1 c2 d p1]
  show ?case by (cases b) (auto simp: st)
qed

lemma two_calls_any_schedule:
  assumes "c_user (call_self c1) = User uid uname1" and "pk_value (call_message_id c1) = Inr n"
      and "c_user (call_self c2) = User uid uname2" and "pk_value (call_message_id c2) = Inr n"
      and "find (\<lambda>m. m_id m = n) (messages d) = Some m"
      and "length (read_rows d n uid) \<le> 1"
      and "4 \<le> length (filter id sched)" and "4 \<le> length (filter Not sched)"
  shows "\<exists>d2. run2 c1 c2 sched (d, Pc_get_message, Pc_get_message) = (d2, Pc_returned, Pc_returned)
           \<and> length (read_rows d2 n uid) = 1"
proof -
  let ?st = "(d, Pc_get_message, Pc_get_message)"
  obtain d2 p1 p2 where r: "run2 c1 c2 sched ?st = (d2, p1, p2)"
    by (cases "run2 c1 c2 sched ?st")
  have "mmr_inv n uid ?st" using assms(5,6) by (simp add: mmr_inv_def)
  from mmr_inv_run2 [OF assms(1-4) this, of sched] r
  have inv: "p1 \<in> {Pc_get_message, Pc_get n, Pc_create n, Pc_get_again n, Pc_returned}"
            "p2 \<in> {Pc_get_message, Pc_get n, Pc_create n, Pc_get_again n, Pc_returned}"
            "p1 = Pc_returned \<longrightarrow> length (read_rows d2 n uid) = 1"
    by (simp_all add: mmr_inv_def)
  from rank_run2 [of ?st sched c1 c2] r assms(7,8)
  have "4 \<le> rank p1" "4 \<le> rank p2" by auto
  with inv have "p1 = Pc_returned" "p2 = Pc_returned" by auto
  with inv r show ?thesis by simp
qed

text \<open>
  Run alone, the four queries of a call end as \<^verbatim>\<open>mark_message_read\<close> does in one
  step.
\<close>

lemma mark_message_read_by_queries:
  assumes "c_user self = User uid uname" and "pk_value v = Inr n"
      and "length (read_rows d n uid) \<le> 1"
  shows "mmr_step self v now (mmr_step self v now (mmr_step self v now
           (mmr_step self v now (d, Pc_get_message))))
         = (case mark_message_read d self v now of
              Inr d' \<Rightarrow> (d', Pc_returned) | Inl e \<Rightarrow> (d, Pc_raised e))"
proof (cases "find (\<lambda>m. m_id m = n) (messages d)")
  case None
  with assms show ?thesis by (simp add: mark_message_read_def)
next
  case (Some m)
  then have mid: "m_id m = n" by (auto simp: find_Some_iff)
  from assms(3) consider "read_rows d n uid = []" | r where "read_rows d n uid = [r]"
    by (rule length_le_1_cases)
  then show ?thesis
  proof cases
    case 1
    then have "\<not> (\<exists>r \<in> set (read_statuses d). rs_message r = n \<and> rs_user r = uid)"
      by (auto simp: read_rows_def filter_empty_conv)
    with 1 Some mid assms show ?thesis by (auto simp: mark_message_read_def)
  next
    case 2
    then have "\<exists>r \<in> set (read_statuses d). rs_message r = n \<and> rs_user r = uid"
      by (auto simp: read_rows_def filter_eq_Cons_iff)
    with 2 Some mid assms show ?thesis by (auto simp: mark_message_read_def)
  qed
qed


text \<open>
  C6. \<^verbatim>\<open>mark_message_read\<close> twice for the same message and user, from the same or
  from two consumers of the user. One after the other: the first call returns a
  table with exactly one read row of the pair and the second call returns that
  same table, not an error. At the same time: however the queries of the two
  calls are interleaved, once each call has had its four turns both have
  returned, none has raised, and the pair has exactly one row; the call that
  loses the race gets \<^verbatim>\<open>IntegrityError\<close> from the insert, which \<^verbatim>\<open>get_or_create\<close>
  answers with a second \<^verbatim>\<open>get\<close>. The table starts with at most one row of the
  pair, as \<^verbatim>\<open>unique_together\<close> keeps it.
\<close>

theorem mark_message_read_twice:
  assumes "c_user (call_self c1) = User uid uname1" and "pk_value (call_message_id c1) = Inr n"
      and "c_user (call_self c2) = User uid uname2" and "pk_value (call_message_id c2) = Inr n"
      and "find (\<lambda>m. m_id m = n) (messages d) = Some m"
      and "length (read_rows d n uid) \<le> 1"
  shows "(\<exists>d1. mark_message_read d (call_self c1) (call_message_id c1) (call_now c1) = Inr d1
            \<and> mark_message_read d1 (call_self c2) (call_message_id c2) (call_now c2) = Inr d1
            \<and> length (read_rows d1 n uid) = 1)
       \<and> (\<forall>sched. 4 \<le> length (filter id sched) \<and> 4 \<le> length (filter Not sched) \<longrightarrow>
            (\<exists>d2. run2 c1 c2 sched (d, Pc_get_message, Pc_get_message)
                     = (d2, Pc_returned, Pc_returned)
               \<and> length (read_rows d2 n uid) = 1))"
proof (intro conjI allI impI)
  have mid: "m_id m = n" using assms(5) by (auto simp: find_Some_iff)
  show "\<exists>d1. mark_message_read d (call_self c1) (call_message_id c1) (call_now c1) = Inr d1
            \<and> mark_message_read d1 (call_self c2) (call_message_id c2) (call_now c2) = Inr d1
            \<and> length (read_rows d1 n uid) = 1"
  proof (cases "\<exists>r \<in> set (read_statuses d). rs_message r = n \<and> rs_user r = uid")
    case True
    then have "read_rows d n uid \<noteq> []" by (auto simp: read_rows_def filter_empty_conv)
    with assms(6) have "length (read_rows d n uid) = 1"
      by (cases "read_rows d n uid") auto
    with True assms mid show ?thesis by (auto simp: mark_message_read_def)
  next
    case False
    then have "read_rows d n uid = []" by (auto simp: read_rows_def filter_empty_conv)
    with False assms mid show ?thesis by (auto simp: mark_message_read_def read_rows_def)
  qed
next
  fix sched :: "bool list"
  assume "4 \<le> length (filter id sched) \<and> 4 \<le> length (filter Not sched)"
  then show "\<exists>d2. run2 c1 c2 sched (d, Pc_get_message, Pc_get_message)
                     = (d2, Pc_returned, Pc_returned)
               \<and> length (read_rows d2 n uid) = 1"
    using two_calls_any_schedule [OF assms] by simp
qed

text \<open>
  Bob reads message 1 on two devices. In the schedule both calls look for the row
  before either inserts; the tablet inserts first, the phone's insert is refused
  and its second \<^verbatim>\<open>get\<close> finds the row.
\<close>

theorem mark_message_read_twice_witness:
  "(\<exists>d1. mark_message_read example_db bob_phone (JInt 1) 100 = Inr d1
      \<and> mark_message_read d1 (call_self bob_reads_on_tablet) (JStr ''1'') 101 = Inr d1
      \<and> length (read_rows d1 1 2) = 1)
   \<and> (\<exists>d2. run2 bob_reads_on_phone bob_reads_on_tablet
              [True, False, True, False, False, True, False, True, True, False]
              (example_db, Pc_get_message, Pc_get_message)
            = (d2, Pc_returned, Pc_returned)
      \<and> length (read_rows d2 1 2) = 1)"
proof -
  have u: "c_user (call_self bob_reads_on_phone) = User 2 ''bob''"
          "c_user (call_self bob_reads_on_tablet) = User 2 ''bob''"
    by (simp_all add: bob_reads_on_phone_def bob_reads_on_tablet_def example_defs)
  have k: "pk_value (call_message_id bob_reads_on_phone) = Inr 1"
          "pk_value (call_message_id bob_reads_on_tablet) = Inr 1"
    by (simp_all add: bob_reads_on_phone_def bob_reads_on_tablet_def py_int_def is_int_space_def
          is_digit_def digit_of_def)
  have f: "find (\<lambda>m. m_id m = 1) (messages example_db)
             = Some \<lparr>m_id = 1, m_conversation = 1, m_sender = 1, m_type = ''text'',
                     m_content = ''hi'', m_created_at = 10\<rparr>"
    by (simp add: example_defs)
  have r: "length (read_rows example_db 1 2) \<le> 1"
    by (simp add: read_rows_def example_defs)
  have s: "4 \<le> length (filter id [True, False, True, False, False, True, False, True, True, False])
          \<and> 4 \<le> length (filter Not [True, False, True, False, False, True, False, True, True, False])"
    by simp
  note t = mark_message_read_twice [OF u(1) k(1) u(2) k(2) f r]
  have a: "\<exists>d1. mark_message_read example_db bob_phone (JInt 1) 100 = Inr d1
      \<and> mark_message_read d1 (call_self bob_reads_on_tablet) (JStr ''1'') 101 = Inr d1
      \<and> length (read_rows d1 1 2) = 1"
    using conjunct1 [OF t] by (simp add: bob_reads_on_phone_def bob_reads_on_tablet_def)
  from conjunct2 [OF t, rule_format, OF s] a show ?thesis by blast
qed

section \<open>Presence\<close>

text \<open>
  C1. The claim: the user is shown online iff at least one live session is left, and
  a \<^verbatim>\<open>user_status\<close> broadcast goes out only when the number of live sessions goes
  from 0 to 1 or from 1 to 0. The consumer counts nothing. Alice has two live
  sessions; her phone disconnects, one session is left, and her row says offline
  and both her laptop and Bob get the offline broadcast. Before her laptop joined
  she had one live session; it joins, and Bob gets an online broadcast again.
\<close>

theorem second_session_broadcasts_too:
  "live_sessions example_world 1 = 2
   \<and> is_online_flag (db example_world) 1 = Some True
   \<and> (case disconnect example_world alice_phone 1000 of
        Inl e \<Rightarrow> False
      | Inr w' \<Rightarrow> live_sessions w' 1 = 1
                 \<and> is_online_flag (db w') 1 = Some False
                 \<and> outbox w' ''a2'' = [Out_user_status 1 ''alice'' ''offline'']
                 \<and> outbox w' ''b1'' = [Out_user_status 1 ''alice'' ''offline''])
   \<and> live_sessions one_device_world 1 = 1
   \<and> live_sessions (connect one_device_world alice_laptop_knocking) 1 = 2
   \<and> outbox (connect one_device_world alice_laptop_knocking) ''b1''
       = [Out_user_status 1 ''alice'' ''online'']"
proof -
  let ?w = "group_discard
              (group_send
                 (example_world\<lparr>db := remove_typing_indicator
                                        (update_online_status (db example_world) 1 False) 1 1\<rparr>)
                 1 (Ev_user_status 1 ''alice'' ''offline''))
              1 ''a1''"
  have 1: "live_sessions example_world 1 = 2"
    by (simp add: live_sessions_def example_defs)
  have 2: "is_online_flag (db example_world) 1 = Some True"
    by (simp add: is_online_flag_def example_defs)
  have 3: "disconnect example_world alice_phone 1000 = Inr ?w"
    using disconnect_user [OF example_consumers(1), of example_world 1000]
    by (simp add: example_consumers)
  have 4: "live_sessions ?w 1 = 1"
    by (simp add: live_sessions_def group_discard_def group_send_def example_defs)
  have 5: "is_online_flag (db ?w) 1 = Some False"
    by (simp add: db_group_discard db_group_send is_online_flag_remove_typing
          is_online_flag_update 2)
  have 6: "outbox ?w ''a2'' = [Out_user_status 1 ''alice'' ''offline'']"
    by (simp add: outbox_def group_discard_def group_send_def user_status_def example_defs)
  have 7: "outbox ?w ''b1'' = [Out_user_status 1 ''alice'' ''offline'']"
    by (simp add: outbox_def group_discard_def group_send_def user_status_def example_defs)
  let ?v = "group_send
              ((accept (group_add one_device_world 1 ''a2'') ''a2'')
                 \<lparr>db := update_online_status (db one_device_world) 1 True\<rparr>)
              1 (Ev_user_status 1 ''alice'' ''online'')"
  have p: "check_participant (db one_device_world) (conversation_id alice_laptop_knocking) 1"
    by (simp add: check_participant_def example_defs)
  have 8: "connect one_device_world alice_laptop_knocking = ?v"
    using connect_participant [OF example_consumers(13) p] by (simp add: example_consumers)
  have 9: "live_sessions one_device_world 1 = 1"
    by (simp add: live_sessions_def example_defs)
  have 10: "live_sessions ?v 1 = 2"
    by (simp add: live_sessions_def group_send_def accept_def set_state_def group_add_def
          example_defs)
  have 11: "outbox ?v ''b1'' = [Out_user_status 1 ''alice'' ''online'']"
    by (simp add: outbox_def group_send_def accept_def set_state_def group_add_def
          user_status_def example_defs)
  show ?thesis unfolding 3 8 using 1 2 4 5 6 7 9 10 11 by simp
qed

text \<open>
  C1, as the code has it: every \<^verbatim>\<open>disconnect\<close> writes \<^verbatim>\<open>is_online = False\<close> and sends
  the offline status to every consumer of the group, and every \<^verbatim>\<open>connect\<close> of a
  participant writes \<^verbatim>\<open>is_online = True\<close> and sends the online status to them,
  whatever other sessions the user has. \<open>B\<close> is any consumer that is in the group
  of the conversation.
\<close>

theorem every_connect_and_disconnect_broadcasts:
  assumes "c_user self = User uid uname"
      and "find (\<lambda>c. channel_name c = chB) (consumers w) = Some B"
      and "chB \<in> groups w (conversation_id self)"
  shows "(\<exists>w'. disconnect w self close_code = Inr w'
            \<and> outbox w' chB = sent B @ [Out_user_status uid uname ''offline'']
            \<and> is_online_flag (db w') uid = map_option (\<lambda>_. False) (is_online_flag (db w) uid))
       \<and> (check_participant (db w) (conversation_id self) uid \<longrightarrow>
            outbox (connect w self) chB = sent B @ [Out_user_status uid uname ''online'']
            \<and> is_online_flag (db (connect w self)) uid
                = map_option (\<lambda>_. True) (is_online_flag (db w) uid))"
proof (intro conjI impI)
  let ?w2 = "w\<lparr>db := remove_typing_indicator (update_online_status (db w) uid False)
                       (conversation_id self) uid\<rparr>"
  let ?w3 = "group_send ?w2 (conversation_id self) (Ev_user_status uid uname ''offline'')"
  have f: "find (\<lambda>c. channel_name c = chB) (consumers ?w2) = Some B" using assms(2) by simp
  have g: "chB \<in> groups ?w2 (conversation_id self)" using assms(3) by simp
  have o: "outbox ?w3 chB = sent B @ [Out_user_status uid uname ''offline'']"
    using outbox_group_send [OF f] g by (simp add: user_status_def)
  have fl: "is_online_flag (db ?w3) uid = map_option (\<lambda>_. False) (is_online_flag (db w) uid)"
    by (simp add: db_group_send is_online_flag_remove_typing is_online_flag_update)
  show "\<exists>w'. disconnect w self close_code = Inr w'
            \<and> outbox w' chB = sent B @ [Out_user_status uid uname ''offline'']
            \<and> is_online_flag (db w') uid = map_option (\<lambda>_. False) (is_online_flag (db w) uid)"
    using o fl by (simp add: disconnect_user [OF assms(1)] outbox_group_discard db_group_discard)
next
  assume p: "check_participant (db w) (conversation_id self) uid"
  let ?w3 = "(accept (group_add w (conversation_id self) (channel_name self)) (channel_name self))
               \<lparr>db := update_online_status (db w) uid True\<rparr>"
  note c = connect_participant [OF assms(1) p]
  have f: "find (\<lambda>c. channel_name c = chB) (consumers ?w3)
             = Some (if channel_name B = channel_name self then B\<lparr>c_state := Accepted\<rparr> else B)"
    using assms(2) by (simp add: accept_def find_set_state consumers_group_add)
  have g: "chB \<in> groups ?w3 (conversation_id self)"
    using assms(3) by (simp add: accept_def groups_set_state groups_group_add)
  show "outbox (connect w self) chB = sent B @ [Out_user_status uid uname ''online'']"
    using outbox_group_send [OF f] g by (simp add: c user_status_def)
  show "is_online_flag (db (connect w self)) uid
          = map_option (\<lambda>_. True) (is_online_flag (db w) uid)"
    by (simp add: c db_group_send is_online_flag_update)
qed

theorem every_connect_and_disconnect_broadcasts_witness:
  "(\<exists>w'. disconnect example_world alice_phone 1000 = Inr w'
      \<and> outbox w' ''b1'' = [Out_user_status 1 ''alice'' ''offline'']
      \<and> is_online_flag (db w') 1 = Some False)
   \<and> check_participant (db one_device_world) 1 1
   \<and> outbox (connect one_device_world alice_laptop_knocking) ''b1''
       = [Out_user_status 1 ''alice'' ''online'']
   \<and> is_online_flag (db (connect one_device_world alice_laptop_knocking)) 1 = Some True"
proof -
  have fl: "is_online_flag (db example_world) 1 = Some True"
           "is_online_flag (db one_device_world) 1 = Some True"
    by (simp_all add: is_online_flag_def example_defs)
  have p: "check_participant (db one_device_world) 1 1"
    by (simp add: check_participant_def example_defs)
  have g1: "''b1'' \<in> groups example_world (conversation_id alice_phone)"
    by (simp add: example_consumers example_bob_phone)
  have g2: "''b1'' \<in> groups one_device_world (conversation_id alice_laptop_knocking)"
    by (simp add: example_consumers example_bob_phone)
  from every_connect_and_disconnect_broadcasts
         [OF example_consumers(1) example_bob_phone(1) g1, of 1000]
  have a: "\<exists>w'. disconnect example_world alice_phone 1000 = Inr w'
      \<and> outbox w' ''b1'' = [Out_user_status 1 ''alice'' ''offline'']
      \<and> is_online_flag (db w') 1 = Some False"
    by (simp add: fl example_bob_phone)
  from every_connect_and_disconnect_broadcasts
         [OF example_consumers(13) example_bob_phone(2) g2, of 1000] p
  have b: "outbox (connect one_device_world alice_laptop_knocking) ''b1''
             = [Out_user_status 1 ''alice'' ''online'']
           \<and> is_online_flag (db (connect one_device_world alice_laptop_knocking)) 1 = Some True"
    by (simp add: fl example_bob_phone example_consumers)
  show ?thesis using a b p by simp
qed

section \<open>Who gets a broadcast\<close>

lemma add_typing_indicator_ok:
  assumes "\<exists>c \<in> set (conversations d). cv_id c = cid"
  shows "\<exists>d'. add_typing_indicator d cid uid now = Inr d'"
  using assms by (simp add: add_typing_indicator_def)

lemma save_message_ok:
  assumes "\<exists>c \<in> set (conversations d). cv_id c = conversation_id self"
      and "c_user self = User uid uname"
  shows "\<exists>d' m. save_message d self content now = Inr (d', Some m)
           \<and> m_content m = content \<and> m_sender m = uid
           \<and> m_conversation m = conversation_id self"
proof -
  from assms(1) obtain conv where
    "find (\<lambda>c. cv_id c = conversation_id self) (conversations d) = Some conv"
    by (cases "find (\<lambda>c. cv_id c = conversation_id self) (conversations d)")
       (auto simp: find_None_iff)
  moreover from this have "cv_id conv = conversation_id self" by (auto simp: find_Some_iff)
  ultimately show ?thesis using assms(2) by (simp add: save_message_def Let_def)
qed

lemma typing_example:
  "receive example_world alice_phone (Some typing_frame) 100
     = Inr (group_send
              (example_world\<lparr>db := example_db\<lparr>typing_indicators :=
                  [\<lparr>ti_conversation = 1, ti_user = 1, ti_started_at = 100\<rparr>]\<rparr>\<rparr>)
              1 (Ev_typing_indicator_handler 1 ''alice'' (JBool True)))"
  by (simp add: receive_def handle_typing_def add_typing_indicator_def typing_frame_def
        example_defs)

text \<open>
  C3. The claim: a typing broadcast from session A reaches every other session B of
  the conversation and never A; a chat message reaches every session, A too. The
  typing handler leaves out the consumers of the typing user, not the typing
  session: Alice types on her phone, Bob's socket gets the typing frame, and her
  laptop, another session joined to the same conversation, gets none.
\<close>

theorem typing_is_withheld_from_the_other_sessions_of_the_user:
  "channel_name alice_laptop \<noteq> channel_name alice_phone
   \<and> channel_name alice_phone \<in> groups example_world 1
   \<and> channel_name alice_laptop \<in> groups example_world 1
   \<and> (case receive example_world alice_phone (Some typing_frame) 100 of
        Inl e \<Rightarrow> False
      | Inr w' \<Rightarrow> outbox w' ''a2'' = [] \<and> outbox w' ''a1'' = []
                 \<and> outbox w' ''b1'' = [Out_typing 1 ''alice'' (JBool True)])"
proof -
  let ?w = "group_send
              (example_world\<lparr>db := example_db\<lparr>typing_indicators :=
                  [\<lparr>ti_conversation = 1, ti_user = 1, ti_started_at = 100\<rparr>]\<rparr>\<rparr>)
              1 (Ev_typing_indicator_handler 1 ''alice'' (JBool True))"
  have 1: "outbox ?w ''a2'' = []"
    by (simp add: outbox_def group_send_def typing_indicator_handler_def example_defs)
  have 2: "outbox ?w ''a1'' = []"
    by (simp add: outbox_def group_send_def typing_indicator_handler_def example_defs)
  have 3: "outbox ?w ''b1'' = [Out_typing 1 ''alice'' (JBool True)]"
    by (simp add: outbox_def group_send_def typing_indicator_handler_def example_defs)
  show ?thesis unfolding typing_example using 1 2 3
    by (simp add: example_consumers example_alice_phone)
qed

text \<open>
  C3, as the code has it. \<open>self\<close> is the session that sends the frame, of user
  \<open>uid\<close>; \<open>B\<close> is any consumer in the group of the conversation, \<open>self\<close> included.
  A typing frame gives \<open>B\<close> the typing frame exactly when \<open>B\<close>'s user is another
  one, so never \<open>self\<close>; a chat message with content gives every \<open>B\<close> the stored
  message. The conversation exists, so that the message and the indicator can be
  stored.
\<close>

theorem typing_goes_to_other_users_and_chat_message_to_all:
  assumes "c_user self = User uid uname"
      and "\<exists>c \<in> set (conversations (db w)). cv_id c = conversation_id self"
      and "find (\<lambda>c. channel_name c = chB) (consumers w) = Some B"
      and "chB \<in> groups w (conversation_id self)"
  shows "(map_of kvs ''type'' = Some (JStr ''typing'') \<longrightarrow>
           (\<exists>w'. receive w self (Some (JObj kvs)) now = Inr w'
              \<and> outbox w' chB
                  = sent B @ (if user_id (c_user B) = Some uid then []
                              else [Out_typing uid uname
                                      (case map_of kvs ''is_typing'' of
                                         None \<Rightarrow> JBool False | Some x \<Rightarrow> x)])))
       \<and> (map_of kvs ''type'' = Some (JStr ''chat_message'')
            \<and> map_of kvs ''content'' = Some (JStr s) \<and> strip s \<noteq> [] \<longrightarrow>
           (\<exists>w' md. receive w self (Some (JObj kvs)) now = Inr w'
              \<and> outbox w' chB = sent B @ [Out_chat_message md]
              \<and> md_content md = strip s \<and> md_sender md = uid))"
proof (intro conjI impI)
  assume t: "map_of kvs ''type'' = Some (JStr ''typing'')"
  let ?v = "case map_of kvs ''is_typing'' of None \<Rightarrow> JBool False | Some x \<Rightarrow> x"
  obtain d where d: "(if truthy ?v
                      then add_typing_indicator (db w) (conversation_id self) uid now
                      else Inr (remove_typing_indicator (db w) (conversation_id self) uid)) = Inr d"
    using add_typing_indicator_ok [OF assms(2), of uid now] by (cases "truthy ?v") auto
  have r: "receive w self (Some (JObj kvs)) now
             = Inr (group_send (w\<lparr>db := d\<rparr>) (conversation_id self)
                      (Ev_typing_indicator_handler uid uname ?v))"
    using t d assms(1) by (simp add: receive_def handle_typing_def Let_def)
  have f: "find (\<lambda>c. channel_name c = chB) (consumers (w\<lparr>db := d\<rparr>)) = Some B"
    using assms(3) by simp
  have g: "chB \<in> groups (w\<lparr>db := d\<rparr>) (conversation_id self)" using assms(4) by simp
  show "\<exists>w'. receive w self (Some (JObj kvs)) now = Inr w'
              \<and> outbox w' chB
                  = sent B @ (if user_id (c_user B) = Some uid then []
                              else [Out_typing uid uname ?v])"
    using outbox_group_send [OF f] g
    by (auto simp: r typing_indicator_handler_def)
next
  assume a: "map_of kvs ''type'' = Some (JStr ''chat_message'')
            \<and> map_of kvs ''content'' = Some (JStr s) \<and> strip s \<noteq> []"
  from save_message_ok [OF assms(2) assms(1), of "strip s" now]
  obtain d m where m: "save_message (db w) self (strip s) now = Inr (d, Some m)"
    "m_content m = strip s" "m_sender m = uid" by blast
  have r: "receive w self (Some (JObj kvs)) now
             = Inr (group_send (w\<lparr>db := d\<rparr>) (conversation_id self)
                      (Ev_chat_message_handler (serialize_message self m)))"
    using a m(1) by (simp add: receive_def handle_chat_message_def)
  have f: "find (\<lambda>c. channel_name c = chB) (consumers (w\<lparr>db := d\<rparr>)) = Some B"
    using assms(3) by simp
  have g: "chB \<in> groups (w\<lparr>db := d\<rparr>) (conversation_id self)" using assms(4) by simp
  have o: "outbox (group_send (w\<lparr>db := d\<rparr>) (conversation_id self)
                      (Ev_chat_message_handler (serialize_message self m))) chB
             = sent B @ [Out_chat_message (serialize_message self m)]"
    using outbox_group_send [OF f] g by (simp add: chat_message_handler_def)
  have "md_content (serialize_message self m) = strip s" "md_sender (serialize_message self m) = uid"
    using m by (simp_all add: serialize_message_def)
  with o r show "\<exists>w' md. receive w self (Some (JObj kvs)) now = Inr w'
              \<and> outbox w' chB = sent B @ [Out_chat_message md]
              \<and> md_content md = strip s \<and> md_sender md = uid"
    by auto
qed


theorem typing_goes_to_other_users_and_chat_message_to_all_witness:
  "(\<exists>w'. receive example_world alice_phone (Some typing_frame) 100 = Inr w'
      \<and> outbox w' ''b1'' = [Out_typing 1 ''alice'' (JBool True)])
   \<and> (\<exists>w'. receive example_world alice_phone (Some typing_frame) 100 = Inr w'
      \<and> outbox w' ''a1'' = [])
   \<and> (\<exists>w' md. receive example_world alice_phone
                 (Some (JObj [(''type'', JStr ''chat_message''), (''content'', JStr '' yo '')])) 100
                = Inr w'
      \<and> outbox w' ''a1'' = [Out_chat_message md] \<and> md_content md = ''yo'' \<and> md_sender md = 1)"
proof -
  have cv: "\<exists>c \<in> set (conversations (db example_world)). cv_id c = conversation_id alice_phone"
    by (simp add: example_defs)
  have gb: "''b1'' \<in> groups example_world (conversation_id alice_phone)"
    by (simp add: example_consumers example_bob_phone)
  have ga: "''a1'' \<in> groups example_world (conversation_id alice_phone)"
    by (simp add: example_consumers example_alice_phone)
  have fa: "find (\<lambda>c. channel_name c = ''a1'') (consumers example_world) = Some alice_phone"
    using example_alice_phone(1) by (simp add: example_consumers)
  have s: "strip '' yo '' = ''yo''" by (simp add: strip_def is_space_def)
  have sa: "sent alice_phone = []" by (simp add: example_defs)
  from typing_goes_to_other_users_and_chat_message_to_all
         [OF example_consumers(1) cv example_bob_phone(1) gb,
           where kvs = "[(''type'', JStr ''typing''), (''is_typing'', JBool True)]" and now = 100]
  have a: "\<exists>w'. receive example_world alice_phone (Some typing_frame) 100 = Inr w'
      \<and> outbox w' ''b1'' = [Out_typing 1 ''alice'' (JBool True)]"
    by (simp add: typing_frame_def example_bob_phone example_consumers)
  from typing_goes_to_other_users_and_chat_message_to_all
         [OF example_consumers(1) cv fa ga,
           where kvs = "[(''type'', JStr ''typing''), (''is_typing'', JBool True)]" and now = 100]
  have b: "\<exists>w'. receive example_world alice_phone (Some typing_frame) 100 = Inr w'
      \<and> outbox w' ''a1'' = []"
    by (simp add: typing_frame_def sa example_consumers)
  from typing_goes_to_other_users_and_chat_message_to_all
         [OF example_consumers(1) cv fa ga,
           where kvs = "[(''type'', JStr ''chat_message''), (''content'', JStr '' yo '')]"
             and s = "'' yo ''" and now = 100]
  have c: "\<exists>w' md. receive example_world alice_phone
                 (Some (JObj [(''type'', JStr ''chat_message''), (''content'', JStr '' yo '')])) 100
                = Inr w'
      \<and> outbox w' ''a1'' = [Out_chat_message md] \<and> md_content md = ''yo'' \<and> md_sender md = 1"
    by (simp add: s sa)
  show ?thesis using a b c by simp
qed

section \<open>Unread messages\<close>

lemma receipt_example:
  "receive example_world bob_phone (Some receipt_frame) 100
     = Inr (example_world\<lparr>db := example_db\<lparr>read_statuses :=
              [\<lparr>rs_message = 1, rs_user = 2, rs_read_at = 100\<rparr>]\<rparr>\<rparr>)"
  by (simp add: receive_def handle_read_receipt_def mark_message_read_def receipt_frame_def
        example_defs)

text \<open>
  C5. The claim: once Bob, who has one unread message in conversation 1, from Alice,
  sends the read receipt for it, his unread count for the conversation is 0.
  \<^verbatim>\<open>mark_message_read\<close> creates the read row and leaves \<^verbatim>\<open>last_read_at\<close> alone, and
  \<^verbatim>\<open>get_unread_count\<close> looks at \<^verbatim>\<open>last_read_at\<close> only: the count is 1 before and 1
  after.
\<close>

theorem read_receipt_leaves_the_unread_count:
  "bob_in_first \<in> set (participants (db example_world))
   \<and> map m_sender [m \<leftarrow> messages (db example_world). m_conversation m = 1] = [1]
   \<and> get_unread_count (db example_world) bob_in_first = 1
   \<and> (case receive example_world bob_phone (Some receipt_frame) 100 of
        Inl e \<Rightarrow> False
      | Inr w' \<Rightarrow> read_statuses (db w') = [\<lparr>rs_message = 1, rs_user = 2, rs_read_at = 100\<rparr>]
                 \<and> participants (db w') = participants (db example_world)
                 \<and> get_unread_count (db w') bob_in_first = 1)"
  unfolding receipt_example
  by (simp add: get_unread_count_def bob_in_first_def example_defs)

text \<open>
  No read receipt changes an unread count: the handler writes neither messages nor
  participants.
\<close>

lemma read_receipt_never_changes_an_unread_count:
  assumes "map_of kvs ''type'' = Some (JStr ''read_receipt'')"
      and "receive w self (Some (JObj kvs)) now = Inr w'"
  shows "get_unread_count (db w') p = get_unread_count (db w) p"
proof -
  have "messages (db w') = messages (db w)"
    using assms
    by (auto simp: receive_def handle_read_receipt_def mark_message_read_def
             split: option.splits sum.splits if_splits scope_user.splits)
  then show ?thesis by (simp add: get_unread_count_def split: option.splits)
qed

text \<open>
  The REST view marks the same message read for Bob and stamps \<^verbatim>\<open>last_read_at\<close> as
  well: after it the count is 0.
\<close>

lemma mark_read_view_clears_the_unread_count:
  "(case mark_read_view example_db 1 2 100 of
      None \<Rightarrow> False
    | Some d \<Rightarrow> read_statuses d = [\<lparr>rs_message = 1, rs_user = 2, rs_read_at = 100\<rparr>]
               \<and> get_unread_count d (bob_in_first\<lparr>p_last_read_at := Some 100\<rparr>) = 0
               \<and> bob_in_first\<lparr>p_last_read_at := Some 100\<rparr> \<in> set (participants d))"
  by (simp add: mark_read_view_def check_participant_def get_or_create_read_status_def
        get_unread_count_def bob_in_first_def example_defs)

section \<open>A refused connection\<close>

lemma state_of_set_state:
  "state_of (set_state w ch st) ch = map_option (\<lambda>_. st) (state_of w ch)"
proof (cases "find (\<lambda>c. channel_name c = ch) (consumers w)")
  case None
  then show ?thesis by (simp add: state_of_def find_set_state)
next
  case (Some c)
  then have "channel_name c = ch" by (rule find_channel_name)
  with Some show ?thesis by (simp add: state_of_def find_set_state)
qed

lemma connect_refused_changes_nothing:
  assumes "c_user self = User uid uname"
      and "\<not> check_participant (db w) (conversation_id self) uid"
  shows "db (connect w self) = db w" and "groups (connect w self) = groups w"
    and "outbox (connect w self) ch = outbox w ch"
    and "state_of (connect w self) (channel_name self)
           = map_option (\<lambda>_. Closed) (state_of w (channel_name self))"
  using assms
  by (simp_all add: connect_refused close_def db_set_state groups_set_state outbox_set_state
        state_of_set_state)


lemma refused_example:
  "connect example_world carol_knocking = close example_world ''c1''"
  using connect_refused [OF example_consumers(10), of example_world]
  by (simp add: check_participant_def example_defs)

text \<open>
  C8. The claim: a user who is not a participant is refused and nothing else happens:
  no group membership, no change of presence or typing state, no broadcast.
  \<^verbatim>\<open>connect\<close> itself does just that (\<open>connect_refused_changes_nothing\<close>). Channels
  runs \<^verbatim>\<open>disconnect\<close> whenever the socket of a consumer closes, and the socket of a
  refused handshake closes too; \<^verbatim>\<open>disconnect\<close> does not ask whether the session was
  ever joined. Carol, online in conversation 2, is refused in conversation 1: the
  teardown that follows stores her as offline, though her session in conversation
  2 lives on, and tells every session of conversation 1 that she went offline.
\<close>

theorem refused_connect_then_disconnect:
  "\<not> check_participant (db example_world) (conversation_id carol_knocking) 3
   \<and> state_of (connect example_world carol_knocking) ''c1'' = Some Closed
   \<and> db (connect example_world carol_knocking) = db example_world
   \<and> ''c1'' \<notin> groups (connect example_world carol_knocking) 1
   \<and> is_online_flag (db example_world) 3 = Some True
   \<and> live_sessions example_world 3 = 1
   \<and> (case disconnect (connect example_world carol_knocking) carol_knocking 1006 of
        Inl e \<Rightarrow> False
      | Inr w' \<Rightarrow> is_online_flag (db w') 3 = Some False
                 \<and> live_sessions w' 3 = 1
                 \<and> outbox w' ''a1'' = [Out_user_status 3 ''carol'' ''offline'']
                 \<and> outbox w' ''a2'' = [Out_user_status 3 ''carol'' ''offline'']
                 \<and> outbox w' ''b1'' = [Out_user_status 3 ''carol'' ''offline''])"
proof -
  let ?c = "close example_world ''c1''"
  let ?w = "group_discard
              (group_send
                 (?c\<lparr>db := remove_typing_indicator (update_online_status (db ?c) 3 False) 1 3\<rparr>)
                 1 (Ev_user_status 3 ''carol'' ''offline''))
              1 ''c1''"
  have 0: "\<not> check_participant (db example_world) (conversation_id carol_knocking) 3"
    by (simp add: check_participant_def example_defs)
  have 1: "state_of ?c ''c1'' = Some Closed"
    by (simp add: state_of_def close_def set_state_def example_defs)
  have 2: "db ?c = db example_world" by (simp add: close_def db_set_state)
  have 3: "''c1'' \<notin> groups ?c 1" by (simp add: close_def groups_set_state example_defs)
  have 4: "is_online_flag (db example_world) 3 = Some True"
    by (simp add: is_online_flag_def example_defs)
  have 5: "live_sessions example_world 3 = 1"
    by (simp add: live_sessions_def example_defs)
  have 6: "disconnect ?c carol_knocking 1006 = Inr ?w"
    using disconnect_user [OF example_consumers(10), of ?c 1006] by (simp add: example_consumers)
  have 7: "is_online_flag (db ?w) 3 = Some False"
    by (simp add: db_group_discard db_group_send is_online_flag_remove_typing
          is_online_flag_update 2 4)
  have 8: "live_sessions ?w 3 = 1"
    by (simp add: live_sessions_def group_discard_def group_send_def close_def set_state_def
          example_defs)
  have 9: "outbox ?w ''a1'' = [Out_user_status 3 ''carol'' ''offline'']"
          "outbox ?w ''a2'' = [Out_user_status 3 ''carol'' ''offline'']"
          "outbox ?w ''b1'' = [Out_user_status 3 ''carol'' ''offline'']"
    by (simp_all add: outbox_def group_discard_def group_send_def close_def set_state_def
          user_status_def example_defs)
  show ?thesis unfolding refused_example 6 using 0 1 2 3 4 5 7 8 9 by simp
qed


end
